theory Spec2Isabelle
  imports Main "HOL-Library.Word"
begin

unbundle bit_operations_syntax

section \<open>Python values and exceptions\<close>

text \<open>
  The client handles JSON-RPC messages as loosely typed Python values: what
  \<^verbatim>\<open>response.json()\<close> and \<^verbatim>\<open>json.loads\<close> return, and what is passed as
  \<^verbatim>\<open>json=request\<close>. A Python \<^verbatim>\<open>dict\<close> with string keys is an association list
  read with \<open>map_of\<close>; a Python \<^verbatim>\<open>int\<close> is unbounded; a Python \<^verbatim>\<open>float\<close> is
  kept as the 64 bits of its IEEE 754 representation. Strings are byte strings
  (the UTF-8 encoding of the Python string).
\<close>

datatype json =
    JNull
  | JBool bool
  | JInt int
  | JFloat "64 word"
  | JStr string
  | JArr "json list"
  | JObj "(string \<times> json) list"

text \<open>The type \<^verbatim>\<open>int | str\<close> of a request id.\<close>

datatype rpc_id = IntId int | StrId string

fun json_of_id :: "rpc_id \<Rightarrow> json" where
  "json_of_id (IntId n) = JInt n"
| "json_of_id (StrId s) = JStr s"

text \<open>Whether a value is a \<^verbatim>\<open>dict\<close>, and whether it is a \<^verbatim>\<open>str\<close>.\<close>

fun is_object :: "json \<Rightarrow> bool" where
  "is_object (JObj kvs) = True"
| "is_object v = False"

fun is_string :: "json \<Rightarrow> bool" where
  "is_string (JStr s) = True"
| "is_string v = False"

text \<open>
  The exceptions below \<^verbatim>\<open>httpx.HTTPError\<close>: the transport errors (time-outs,
  network errors such as a refused connection or a failed name lookup, protocol
  errors, proxy errors, unsupported protocol), the decoding and redirect errors,
  and \<^verbatim>\<open>HTTPStatusError\<close>, which \<^verbatim>\<open>raise_for_status\<close> raises with the status.
\<close>

datatype httpx_error =
    ConnectTimeout | ReadTimeout | WriteTimeout | PoolTimeout
  | ConnectError | ReadError | WriteError | CloseError
  | LocalProtocolError | RemoteProtocolError
  | ProxyError | UnsupportedProtocol
  | DecodingError | TooManyRedirects
  | HTTPStatusError int

text \<open>
  The exceptions that the modelled code can raise. \<open>FileNotFoundError\<close> carries
  its message (the file name, when the operating system raises it) and
  \<open>ValueError\<close> its message; \<open>KeyError\<close> carries the key. \<open>OSError n f\<close> is
  the error that the operating system reports with error number \<open>n\<close> on the file
  \<open>f\<close>, in the class Python gives it: \<^verbatim>\<open>PermissionError\<close> for 13 (EACCES) and 1
  (EPERM), \<^verbatim>\<open>IsADirectoryError\<close> for 21 (EISDIR), \<^verbatim>\<open>NotADirectoryError\<close> for 20
  (ENOTDIR), and so on; only error number 2 (ENOENT) gives \<^verbatim>\<open>FileNotFoundError\<close>.
  \<open>OtherError\<close> stands for what the HTTP library raises outside
  \<^verbatim>\<open>httpx.HTTPError\<close> (an invalid URL, a closed client).
\<close>

datatype pyerr =
    FileNotFoundError string
  | OSError int string
  | ValueError string
  | JSONDecodeError
  | KeyError string
  | IndexError
  | TypeError
  | AttributeError
  | HTTPError httpx_error
  | OtherError string

text \<open>The exception for an error number of the operating system.\<close>

definition os_error :: "int \<Rightarrow> string \<Rightarrow> pyerr" where
  "os_error n f = (if n = 2 then FileNotFoundError f else OSError n f)"

text \<open>Sequencing of computations that may raise.\<close>

definition and_then :: "pyerr + 'a \<Rightarrow> ('a \<Rightarrow> pyerr + 'b) \<Rightarrow> pyerr + 'b" where
  "and_then m f = (case m of Inl e \<Rightarrow> Inl e | Inr x \<Rightarrow> f x)"

subsection \<open>The operations of Python the client applies to these values\<close>

text \<open>\<^verbatim>\<open>k in s\<close> on two strings: \<open>k\<close> occurs in \<open>s\<close>.\<close>

fun is_substring :: "string \<Rightarrow> string \<Rightarrow> bool" where
  "is_substring k [] = (k = [])"
| "is_substring k (c # cs) = (take (length k) (c # cs) = k \<or> is_substring k cs)"

text \<open>
  \<^verbatim>\<open>k in v\<close> for a string \<open>k\<close>: a key of a dict, an element of a list, a
  substring of a string; a \<^verbatim>\<open>TypeError\<close> on the values that are not containers.
\<close>

fun py_in :: "string \<Rightarrow> json \<Rightarrow> pyerr + bool" where
  "py_in k (JObj kvs) = Inr (map_of kvs k \<noteq> None)"
| "py_in k (JArr xs) = Inr (JStr k \<in> set xs)"
| "py_in k (JStr s) = Inr (is_substring k s)"
| "py_in k v = Inl TypeError"

text \<open>
  \<^verbatim>\<open>v[k]\<close> for a string \<open>k\<close>: the value under the key, a \<^verbatim>\<open>KeyError\<close> when a
  dict lacks it, a \<^verbatim>\<open>TypeError\<close> on every other value.
\<close>

fun py_getitem :: "json \<Rightarrow> string \<Rightarrow> pyerr + json" where
  "py_getitem (JObj kvs) k = (case map_of kvs k of None \<Rightarrow> Inl (KeyError k) | Some v \<Rightarrow> Inr v)"
| "py_getitem v k = Inl TypeError"

text \<open>\<^verbatim>\<open>v.get(k, d)\<close>: only a dict has the method.\<close>

fun py_get :: "json \<Rightarrow> string \<Rightarrow> json \<Rightarrow> pyerr + json" where
  "py_get (JObj kvs) k d = Inr (case map_of kvs k of None \<Rightarrow> d | Some v \<Rightarrow> v)"
| "py_get v k d = Inl AttributeError"

text \<open>
  The truth value of \<^verbatim>\<open>v\<close> in \<^verbatim>\<open>if not v\<close>: false for \<^verbatim>\<open>None\<close>, \<^verbatim>\<open>False\<close>,
  the numbers equal to zero (for a float, both signed zeros), and the empty
  string, list and dict.
\<close>

fun truthy :: "json \<Rightarrow> bool" where
  "truthy JNull = False"
| "truthy (JBool b) = b"
| "truthy (JInt i) = (i \<noteq> 0)"
| "truthy (JFloat w) = (w AND 0x7FFFFFFFFFFFFFFF \<noteq> 0)"
| "truthy (JStr s) = (s \<noteq> [])"
| "truthy (JArr xs) = (xs \<noteq> [])"
| "truthy (JObj kvs) = (kvs \<noteq> [])"

text \<open>
  \<^verbatim>\<open>v[0]\<close>: the first element of a list, the first character of a string, a
  \<^verbatim>\<open>KeyError\<close> on a dict (whose keys are strings), a \<^verbatim>\<open>TypeError\<close> on the rest.
\<close>

fun py_first :: "json \<Rightarrow> pyerr + json" where
  "py_first (JArr xs) = (case xs of [] \<Rightarrow> Inl IndexError | x # _ \<Rightarrow> Inr x)"
| "py_first (JStr s) = (case s of [] \<Rightarrow> Inl IndexError | c # _ \<Rightarrow> Inr (JStr [c]))"
| "py_first (JObj kvs) = Inl (KeyError ''0'')"
| "py_first v = Inl TypeError"

text \<open>The decimal digits of a natural number and of an integer, as \<^verbatim>\<open>str\<close> prints them.\<close>

fun str_nat :: "nat \<Rightarrow> string" where
  "str_nat n =
     (if n < 10 then [''0123456789'' ! n]
      else str_nat (n div 10) @ [''0123456789'' ! (n mod 10)])"

declare str_nat.simps [simp del]

definition str_int :: "int \<Rightarrow> string" where
  "str_int i = (if i < 0 then CHR ''-'' # str_nat (nat (- i)) else str_nat (nat i))"

text \<open>
  What the standard library and the platform provide, taken as given:
  \<^verbatim>\<open>json.loads\<close> on a string (\<open>None\<close> where it raises \<^verbatim>\<open>JSONDecodeError\<close>),
  \<^verbatim>\<open>urllib.parse.urljoin\<close>, and \<^verbatim>\<open>repr\<close> on the values whose printed form
  needs it (floats, lists and dicts).
\<close>

record library =
  json_loads :: "string \<Rightarrow> json option"
  urljoin :: "string \<Rightarrow> string \<Rightarrow> string"
  repr :: "json \<Rightarrow> string"

text \<open>\<^verbatim>\<open>str(v)\<close>, as the f-string of the error message formats a value.\<close>

fun py_str :: "library \<Rightarrow> json \<Rightarrow> string" where
  "py_str L JNull = ''None''"
| "py_str L (JBool b) = (if b then ''True'' else ''False'')"
| "py_str L (JInt i) = str_int i"
| "py_str L (JStr s) = s"
| "py_str L v = repr L v"

text \<open>
  \<^verbatim>\<open>json.loads(v)\<close> on a value taken from a parsed message: on a string the
  decoding or a \<^verbatim>\<open>JSONDecodeError\<close>, on anything else a \<^verbatim>\<open>TypeError\<close>.
\<close>

fun loads :: "library \<Rightarrow> json \<Rightarrow> pyerr + json" where
  "loads L (JStr s) = (case json_loads L s of None \<Rightarrow> Inl JSONDecodeError | Some v \<Rightarrow> Inr v)"
| "loads L v = Inl TypeError"


section \<open>protocol.py: the envelope builder\<close>

text \<open>
  \<^verbatim>\<open>return {"jsonrpc": "2.0", "id": request_id, "method": method, "params": params}\<close>
\<close>

definition create_request :: "string \<Rightarrow> (string \<times> json) list \<Rightarrow> rpc_id \<Rightarrow> json" where
  "create_request method params rid =
     JObj [(''jsonrpc'', JStr ''2.0''),
           (''id'', json_of_id rid),
           (''method'', JStr method),
           (''params'', JObj params)]"

text \<open>
  \<^verbatim>\<open>return MCPProtocol.create_request(method="tools/call",
       params={"name": tool_name, "arguments": arguments}, request_id=request_id)\<close>
\<close>

definition create_tool_call_request ::
    "string \<Rightarrow> (string \<times> json) list \<Rightarrow> rpc_id \<Rightarrow> json" where
  "create_tool_call_request tool_name arguments rid =
     create_request ''tools/call''
       [(''name'', JStr tool_name), (''arguments'', JObj arguments)] rid"


section \<open>utils.py: paths, the file system, base64\<close>

subsection \<open>Paths of \<^verbatim>\<open>pathlib\<close> (POSIX flavour)\<close>

text \<open>
  A path object holds its root (empty, \<^verbatim>\<open>/\<close> or \<^verbatim>\<open>//\<close>) and its components.
  \<open>Path\<close> parses a string as \<^verbatim>\<open>pathlib.Path(s)\<close> does: the root is split off, the
  rest is cut at the slashes, and empty components and \<^verbatim>\<open>.\<close> are dropped.
\<close>

datatype path = PosixPath (root: string) (parts: "string list")

fun split_sep :: "string \<Rightarrow> string list" where
  "split_sep [] = [[]]"
| "split_sep (c # cs) =
     (if c = CHR ''/'' then [] # split_sep cs
      else (case split_sep cs of [] \<Rightarrow> [[c]] | w # ws \<Rightarrow> (c # w) # ws))"

definition splitroot :: "string \<Rightarrow> string \<times> string" where
  "splitroot p =
     (if take 1 p \<noteq> ''/'' then ('''', p)
      else if take 1 (drop 1 p) \<noteq> ''/'' \<or> take 1 (drop 2 p) = ''/'' then (''/'', drop 1 p)
      else (''//'', drop 2 p))"

definition Path :: "string \<Rightarrow> path" where
  "Path s = (case splitroot s of (r, rel) \<Rightarrow>
     PosixPath r (filter (\<lambda>x. x \<noteq> [] \<and> x \<noteq> ''.'') (split_sep rel)))"

text \<open>\<^verbatim>\<open>path.name\<close>: the last component, empty when there is none.\<close>

definition name :: "path \<Rightarrow> string" where
  "name p = (if parts p = [] then [] else last (parts p))"

text \<open>\<^verbatim>\<open>s.rfind(c)\<close>: the highest index of \<open>c\<close> in \<open>s\<close>, or \<open>-1\<close>.\<close>

definition rfind :: "string \<Rightarrow> char \<Rightarrow> int" where
  "rfind s c =
     (if c \<in> set s then int (length s) - 1 - int (length (takeWhile (\<lambda>x. x \<noteq> c) (rev s)))
      else - 1)"

text \<open>
  \<^verbatim>\<open>path.suffix\<close>:
  \<^verbatim>\<open>i = name.rfind('.'); return name[i:] if 0 < i < len(name) - 1 else ''\<close>.
  A leading dot does not start a suffix, and a trailing dot is none.
\<close>

definition suffix :: "path \<Rightarrow> string" where
  "suffix p =
     (let n = name p; i = rfind n (CHR ''.'')
      in if 0 < i \<and> i < int (length n) - 1 then drop (nat i) n else [])"

text \<open>
  \<^verbatim>\<open>s.lower()\<close>. On the letters A to Z it is the table below; every other
  character that \<^verbatim>\<open>lower\<close> changes is outside ASCII and stays outside ASCII, so
  the comparison of the result with \<^verbatim>\<open>".pdf"\<close> reads the same.
\<close>

definition lower_char :: "char \<Rightarrow> char" where
  "lower_char c =
     (case map_of (zip ''ABCDEFGHIJKLMNOPQRSTUVWXYZ'' ''abcdefghijklmnopqrstuvwxyz'') c of
        Some l \<Rightarrow> l
      | None \<Rightarrow> c)"

definition lower :: "string \<Rightarrow> string" where
  "lower s = map lower_char s"

subsection \<open>The file system\<close>

text \<open>
  The file system as the process meets it, for each path:
  \<^item> \<open>node\<close> is what is on disk at the path after following symbolic links (a
    regular file or a directory), \<open>None\<close> when nothing is there;
  \<^item> \<open>stat_errno\<close> is the error number with which \<^verbatim>\<open>os.stat\<close> fails on the path
    whatever is there (13 when a directory of the path may not be searched, 36
    when a name is too long, ...), \<open>None\<close> when it does not fail so;
  \<^item> \<open>open_errno\<close> is the error number with which opening the path for reading,
    or reading it, fails (13 when the process may not read it, 5 on an
    input/output error, ...), \<open>None\<close> when it does not fail so;
  \<^item> \<open>is_link\<close> tells whether the last component of the path is a symbolic link;
  \<^item> \<open>realpath\<close> is the path that \<^verbatim>\<open>Path.resolve()\<close> returns;
  \<^item> \<open>contents\<close> are the bytes of the regular file at the path.
\<close>

type_synonym byte = "8 word"

datatype kind = RegularFile | Directory

record filesystem =
  node :: "path \<Rightarrow> kind option"
  stat_errno :: "path \<Rightarrow> int option"
  open_errno :: "path \<Rightarrow> int option"
  is_link :: "path \<Rightarrow> bool"
  realpath :: "path \<Rightarrow> path"
  contents :: "path \<Rightarrow> byte list"

text \<open>\<^verbatim>\<open>str(path)\<close>\<close>

fun join_sep :: "string list \<Rightarrow> string" where
  "join_sep [] = []"
| "join_sep [x] = x"
| "join_sep (x # y # ys) = x @ ''/'' @ join_sep (y # ys)"

definition str_path :: "path \<Rightarrow> string" where
  "str_path p = (if root p = [] \<and> parts p = [] then ''.'' else root p @ join_sep (parts p))"

text \<open>
  \<^verbatim>\<open>os.stat(path)\<close>: the kind of what is there, or the error number of the
  failure; 2 (ENOENT) when nothing is there.
\<close>

definition os_stat :: "filesystem \<Rightarrow> path \<Rightarrow> int + kind" where
  "os_stat fs p =
     (case stat_errno fs p of
        Some n \<Rightarrow> Inl n
      | None \<Rightarrow> (case node fs p of None \<Rightarrow> Inl 2 | Some k \<Rightarrow> Inr k))"

text \<open>
  \<^verbatim>\<open>path.exists()\<close> of \<^verbatim>\<open>pathlib\<close> (Python 3.10 to 3.13):
  \<^verbatim>\<open>try:
      self.stat()
  except OSError as e:
      if not _ignore_error(e):
          raise
      return False
  return True\<close>
  where the ignored error numbers are ENOENT (2), ENOTDIR (20), EBADF (9) and
  ELOOP (40). Every other failure of the stat is raised to the caller.
\<close>

definition ignore_error :: "int \<Rightarrow> bool" where
  "ignore_error n = (n \<in> {2, 20, 9, 40})"

definition exists_path :: "filesystem \<Rightarrow> path \<Rightarrow> pyerr + bool" where
  "exists_path fs p =
     (case os_stat fs p of
        Inr k \<Rightarrow> Inr True
      | Inl n \<Rightarrow> if ignore_error n then Inr False else Inl (OSError n (str_path p)))"

text \<open>
  \<^verbatim>\<open>with open(path, "rb") as f: pdf_bytes = f.read()\<close>: the error of the
  operating system when opening or reading fails; otherwise
  \<^verbatim>\<open>FileNotFoundError\<close> when nothing is there, \<^verbatim>\<open>IsADirectoryError\<close> (error
  number 21) on a directory, and the bytes of a regular file.
\<close>

definition open_read :: "filesystem \<Rightarrow> path \<Rightarrow> pyerr + byte list" where
  "open_read fs p =
     (case open_errno fs p of
        Some n \<Rightarrow> Inl (os_error n (str_path p))
      | None \<Rightarrow>
          (case node fs p of
             None \<Rightarrow> Inl (FileNotFoundError (str_path p))
           | Some Directory \<Rightarrow> Inl (OSError 21 (str_path p))
           | Some RegularFile \<Rightarrow> Inr (contents fs p)))"

text \<open>
  What \<^verbatim>\<open>Path.resolve()\<close> promises for a path: the result is absolute and
  resolves to itself, it reaches the same object with the same bytes, a path
  that can be examined resolves to one that can be examined, and the name of
  the last component is kept unless that component is a symbolic link (or is
  empty or \<^verbatim>\<open>..\<close>).
\<close>

definition resolves :: "filesystem \<Rightarrow> path \<Rightarrow> bool" where
  "resolves fs p =
     (root (realpath fs p) = ''/''
      \<and> realpath fs (realpath fs p) = realpath fs p
      \<and> node fs (realpath fs p) = node fs p
      \<and> contents fs (realpath fs p) = contents fs p
      \<and> (stat_errno fs p = None \<longrightarrow> stat_errno fs (realpath fs p) = None)
      \<and> (\<not> is_link fs p \<and> name p \<noteq> [] \<and> name p \<noteq> ''..''
            \<longrightarrow> name (realpath fs p) = name p))"

subsection \<open>Base64 (RFC 4648, the standard alphabet)\<close>

definition b64_alphabet :: string where
  "b64_alphabet = ''ABCDEFGHIJKLMNOPQRSTUVWXYZabcdefghijklmnopqrstuvwxyz0123456789+/''"

definition b64_char :: "nat \<Rightarrow> char" where
  "b64_char n = b64_alphabet ! n"

text \<open>
  \<^verbatim>\<open>base64.b64encode(bs).decode("ascii")\<close>: every three bytes give four
  characters, each for six bits; one or two bytes left over give two or three
  characters and padding.
\<close>

fun b64encode :: "byte list \<Rightarrow> string" where
  "b64encode [] = []"
| "b64encode [a] =
     [b64_char (unat a div 4), b64_char (unat a mod 4 * 16), CHR ''='', CHR ''='']"
| "b64encode [a, b] =
     [b64_char (unat a div 4), b64_char (unat a mod 4 * 16 + unat b div 16),
      b64_char (unat b mod 16 * 4), CHR ''='']"
| "b64encode (a # b # c # rest) =
     [b64_char (unat a div 4), b64_char (unat a mod 4 * 16 + unat b div 16),
      b64_char (unat b mod 16 * 4 + unat c div 64), b64_char (unat c mod 64)]
     @ b64encode rest"

text \<open>
  Standard base64 decoding: four characters at a time, padding accepted only
  in the last group, \<open>None\<close> on any character outside the alphabet and on a
  length that is not a multiple of four.
\<close>

fun index_of :: "'a \<Rightarrow> 'a list \<Rightarrow> nat option" where
  "index_of x [] = None"
| "index_of x (y # ys) = (if x = y then Some 0 else map_option Suc (index_of x ys))"

definition b64_index :: "char \<Rightarrow> nat option" where
  "b64_index c = index_of c b64_alphabet"

fun b64decode :: "string \<Rightarrow> byte list option" where
  "b64decode [] = Some []"
| "b64decode (c0 # c1 # c2 # c3 # rest) =
     (case (b64_index c0, b64_index c1) of
        (Some s0, Some s1) \<Rightarrow>
          if c2 = CHR ''='' \<and> c3 = CHR ''='' \<and> rest = []
          then Some [of_nat (s0 * 4 + s1 div 16)]
          else (case b64_index c2 of
                  None \<Rightarrow> None
                | Some s2 \<Rightarrow>
                    if c3 = CHR ''='' \<and> rest = []
                    then Some [of_nat (s0 * 4 + s1 div 16), of_nat (s1 mod 16 * 16 + s2 div 4)]
                    else (case b64_index c3 of
                            None \<Rightarrow> None
                          | Some s3 \<Rightarrow>
                              (case b64decode rest of
                                 None \<Rightarrow> None
                               | Some bs \<Rightarrow>
                                   Some (of_nat (s0 * 4 + s1 div 16)
                                         # of_nat (s1 mod 16 * 16 + s2 div 4)
                                         # of_nat (s2 mod 4 * 64 + s3) # bs))))
      | _ \<Rightarrow> None)"
| "b64decode _ = None"

subsection \<open>\<^verbatim>\<open>PDFUtils\<close>\<close>

text \<open>
  \<^verbatim>\<open>path = Path(pdf_path)
  if not path.exists():
      raise FileNotFoundError(f"PDF file not found: {pdf_path}")
  if path.suffix.lower() != ".pdf":
      raise ValueError(f"File is not a PDF: {pdf_path}")
  return path.resolve()\<close>
\<close>

definition validate_pdf_path :: "filesystem \<Rightarrow> string \<Rightarrow> pyerr + path" where
  "validate_pdf_path fs pdf_path =
     (let path = Path pdf_path in
      and_then (exists_path fs path) (\<lambda>found.
      if \<not> found then
        Inl (FileNotFoundError (''PDF file not found: '' @ pdf_path))
      else if lower (suffix path) \<noteq> ''.pdf'' then
        Inl (ValueError (''File is not a PDF: '' @ pdf_path))
      else Inr (realpath fs path)))"

text \<open>
  \<^verbatim>\<open>path = PDFUtils.validate_pdf_path(pdf_path)
  with open(path, "rb") as f:
      pdf_bytes = f.read()
  return base64.b64encode(pdf_bytes).decode("ascii")\<close>
\<close>

definition read_pdf_as_base64 :: "filesystem \<Rightarrow> string \<Rightarrow> pyerr + string" where
  "read_pdf_as_base64 fs pdf_path =
     and_then (validate_pdf_path fs pdf_path) (\<lambda>path.
     and_then (open_read fs path) (\<lambda>pdf_bytes.
     Inr (b64encode pdf_bytes)))"

text \<open>
  The wording of the specification for the paths that are accepted: the name
  of the file ends in \<^verbatim>\<open>.pdf\<close>, in any letter case.
\<close>

definition name_ends_in_pdf :: "path \<Rightarrow> bool" where
  "name_ends_in_pdf p = (lower (drop (length (name p) - 4) (name p)) = ''.pdf'')"


section \<open>\<^verbatim>\<open>http_client.py\<close>: the tool-call client\<close>

subsection \<open>The network\<close>

text \<open>
  A request as \<^verbatim>\<open>httpx\<close> issues it (URL, headers, and for a POST the value
  passed as \<^verbatim>\<open>json=\<close>) and what comes back: an exception, or a response with
  its status code and body. The world answers a request as a function of the
  requests issued before it, and records each request.
\<close>

datatype http_request =
    GET string "(string \<times> string) list"
  | POST string "(string \<times> string) list" json

record response =
  status_code :: int
  body :: string

record world =
  server :: "http_request list \<Rightarrow> http_request \<Rightarrow> pyerr + response"
  issued :: "http_request list"

definition send :: "world \<Rightarrow> http_request \<Rightarrow> (pyerr + response) \<times> world" where
  "send w r = (server w (issued w) r, w\<lparr>issued := issued w @ [r]\<rparr>)"

text \<open>
  \<^verbatim>\<open>response.raise_for_status()\<close> of \<^verbatim>\<open>httpx\<close>: returns on a status from 200 to
  299 and raises \<^verbatim>\<open>HTTPStatusError\<close> on every other status.
\<close>

definition raise_for_status :: "response \<Rightarrow> pyerr + unit" where
  "raise_for_status r =
     (if 200 \<le> status_code r \<and> status_code r \<le> 299 then Inr ()
      else Inl (HTTPError (HTTPStatusError (status_code r))))"

text \<open>\<^verbatim>\<open>response.json()\<close>\<close>

definition response_json :: "library \<Rightarrow> response \<Rightarrow> pyerr + json" where
  "response_json L r = loads L (JStr (body r))"

subsection \<open>\<^verbatim>\<open>MCPHTTPClient\<close>\<close>

text \<open>
  The fields of a client: \<^verbatim>\<open>base_url\<close>, \<^verbatim>\<open>mcp_endpoint\<close>, the headers given to
  \<^verbatim>\<open>httpx.AsyncClient\<close>, and the counter \<^verbatim>\<open>_request_id\<close>. (The two time-outs,
  floating-point numbers handed to the HTTP library, are left out.)
\<close>

record client =
  base_url :: string
  mcp_endpoint :: string
  headers :: "(string \<times> string) list"
  request_id :: int

text \<open>\<^verbatim>\<open>s.rstrip(c)\<close> for one character \<open>c\<close>.\<close>

definition rstrip :: "string \<Rightarrow> char \<Rightarrow> string" where
  "rstrip s c = rev (dropWhile (\<lambda>x. x = c) (rev s))"

text \<open>
  \<^verbatim>\<open>self.base_url = base_url.rstrip("/")
  self.mcp_endpoint = urljoin(self.base_url + "/", "mcp")
  headers = {"Content-Type": "application/json",
             "Accept": "application/json, text/event-stream"}
  if api_key:
      headers["Authorization"] = f"Bearer {api_key}"
  ...
  self._request_id = 0\<close>
\<close>

definition init :: "library \<Rightarrow> string \<Rightarrow> string option \<Rightarrow> client" where
  "init L url api_key =
     \<lparr>base_url = rstrip url (CHR ''/''),
      mcp_endpoint = urljoin L (rstrip url (CHR ''/'') @ ''/'') ''mcp'',
      headers =
        [(''Content-Type'', ''application/json''),
         (''Accept'', ''application/json, text/event-stream'')]
        @ (case api_key of
             None \<Rightarrow> []
           | Some k \<Rightarrow> if k \<noteq> [] then [(''Authorization'', ''Bearer '' @ k)] else []),
      request_id = 0\<rparr>"

text \<open>
  \<^verbatim>\<open>self._request_id += 1
  return self._request_id\<close>
\<close>

definition next_request_id :: "client \<Rightarrow> int \<times> client" where
  "next_request_id c = (request_id c + 1, c\<lparr>request_id := request_id c + 1\<rparr>)"

text \<open>
  The second half of \<^verbatim>\<open>_call_tool\<close>, from the parsed response on:
  \<^verbatim>\<open>if "error" in rpc_response:
      error = rpc_response["error"]
      raise ValueError(f"MCP error [{error.get('code')}]: {error.get('message')}")
  result = rpc_response.get("result", {})
  content_items = result.get("content", [])
  if not content_items:
      return {}
  first_item = content_items[0]
  if first_item.get("type") == "text":
      return json.loads(first_item["text"])
  return {}\<close>
\<close>

definition parse_rpc_response :: "library \<Rightarrow> json \<Rightarrow> pyerr + json" where
  "parse_rpc_response L rpc_response =
     and_then (py_in ''error'' rpc_response) (\<lambda>has_error.
     if has_error then
       and_then (py_getitem rpc_response ''error'') (\<lambda>error.
       and_then (py_get error ''code'' JNull) (\<lambda>code.
       and_then (py_get error ''message'' JNull) (\<lambda>message.
       Inl (ValueError (''MCP error ['' @ py_str L code @ '']: '' @ py_str L message)))))
     else
       and_then (py_get rpc_response ''result'' (JObj [])) (\<lambda>result.
       and_then (py_get result ''content'' (JArr [])) (\<lambda>content_items.
       if \<not> truthy content_items then Inr (JObj [])
       else
         and_then (py_first content_items) (\<lambda>first_item.
         and_then (py_get first_item ''type'' JNull) (\<lambda>item_type.
         if item_type = JStr ''text'' then
           and_then (py_getitem first_item ''text'') (\<lambda>item_text. loads L item_text)
         else Inr (JObj []))))))"

text \<open>
  \<^verbatim>\<open>request = MCPProtocol.create_tool_call_request(tool_name=tool_name,
      arguments={"fileContent": file_content_base64},
      request_id=self._next_request_id())
  response = await self.client.post(self.mcp_endpoint, json=request)
  response.raise_for_status()
  rpc_response = response.json()\<close>
  and then as above. The result comes with the client and the world as the call
  leaves them.
\<close>

definition call_tool ::
    "library \<Rightarrow> client \<Rightarrow> world \<Rightarrow> string \<Rightarrow> string \<Rightarrow> (pyerr + json) \<times> client \<times> world" where
  "call_tool L c w tool_name file_content_base64 =
     (case next_request_id c of (rid, c1) \<Rightarrow>
      case send w (POST (mcp_endpoint c1) (headers c1)
                     (create_tool_call_request tool_name
                        [(''fileContent'', JStr file_content_base64)] (IntId rid)))
      of (outcome, w1) \<Rightarrow>
        (and_then outcome (\<lambda>response.
         and_then (raise_for_status response) (\<lambda>_.
         and_then (response_json L response) (\<lambda>rpc_response.
         parse_rpc_response L rpc_response))),
         c1, w1))"

text \<open>
  \<^verbatim>\<open>base64_content = PDFUtils.read_pdf_as_base64(pdf_path)
  result = await self._call_tool("extract_text", base64_content)
  return result.get("text", "")\<close>
\<close>

definition extract_text ::
    "library \<Rightarrow> filesystem \<Rightarrow> client \<Rightarrow> world \<Rightarrow> string \<Rightarrow> (pyerr + json) \<times> client \<times> world" where
  "extract_text L fs c w pdf_path =
     (case read_pdf_as_base64 fs pdf_path of
        Inl e \<Rightarrow> (Inl e, c, w)
      | Inr base64_content \<Rightarrow>
          (case call_tool L c w ''extract_text'' base64_content of (result, c1, w1) \<Rightarrow>
             (and_then result (\<lambda>r. py_get r ''text'' (JStr [])), c1, w1)))"

text \<open>
  \<^verbatim>\<open>base64_content = PDFUtils.read_pdf_as_base64(pdf_path)
  result = await self._call_tool("extract_metadata", base64_content)
  return result\<close>
\<close>

definition extract_metadata ::
    "library \<Rightarrow> filesystem \<Rightarrow> client \<Rightarrow> world \<Rightarrow> string \<Rightarrow> (pyerr + json) \<times> client \<times> world" where
  "extract_metadata L fs c w pdf_path =
     (case read_pdf_as_base64 fs pdf_path of
        Inl e \<Rightarrow> (Inl e, c, w)
      | Inr base64_content \<Rightarrow> call_tool L c w ''extract_metadata'' base64_content)"

text \<open>
  \<^verbatim>\<open>try:
      response = await self.client.get(urljoin(self.base_url + "/", "health"))
      return response.status_code == 200
  except httpx.HTTPError:
      return False\<close>
\<close>

definition health_check :: "library \<Rightarrow> client \<Rightarrow> world \<Rightarrow> (pyerr + bool) \<times> world" where
  "health_check L c w =
     (case send w (GET (urljoin L (base_url c @ ''/'') ''health'') (headers c)) of (outcome, w1) \<Rightarrow>
        ((case outcome of
            Inr response \<Rightarrow> Inr (status_code response = 200)
          | Inl (HTTPError e) \<Rightarrow> Inr False
          | Inl e \<Rightarrow> Inl e),
         w1))"

text \<open>A caller issuing tool calls one after the other, whatever each call returns.\<close>

fun call_tools ::
    "library \<Rightarrow> client \<Rightarrow> world \<Rightarrow> (string \<times> string) list \<Rightarrow> client \<times> world" where
  "call_tools L c w [] = (c, w)"
| "call_tools L c w ((tool_name, content) # calls) =
     (case call_tool L c w tool_name content of (result, c1, w1) \<Rightarrow> call_tools L c1 w1 calls)"

text \<open>The ids of the POST requests issued so far, in order.\<close>

fun request_ids :: "http_request list \<Rightarrow> json list" where
  "request_ids [] = []"
| "request_ids (GET url hs # rs) = request_ids rs"
| "request_ids (POST url hs (JObj kvs) # rs) =
     (case map_of kvs ''id'' of None \<Rightarrow> request_ids rs | Some i \<Rightarrow> i # request_ids rs)"
| "request_ids (POST url hs v # rs) = request_ids rs"


section \<open>Concrete environments\<close>

text \<open>
  A small file system.
  \<^item> Regular files \<^verbatim>\<open>/tmp/test.pdf\<close> (the sixteen bytes \<^verbatim>\<open>fake pdf content\<close>),
    \<^verbatim>\<open>/tmp/empty.pdf\<close> (no bytes), \<^verbatim>\<open>/tmp/test.PDF\<close>, \<^verbatim>\<open>/tmp/test.txt\<close>,
    \<^verbatim>\<open>/data/report.txt\<close> and the hidden file \<^verbatim>\<open>/tmp/.pdf\<close>.
  \<^item> The regular file \<^verbatim>\<open>/tmp/locked.pdf\<close>, which the process may not read
    (mode 000): opening it fails with error number 13.
  \<^item> The directories \<^verbatim>\<open>/tmp/scans.pdf\<close> and \<^verbatim>\<open>/tmp/archive/.pdf\<close>, and the
    directory \<^verbatim>\<open>/tmp/sealed.pdf\<close> of mode 000, whose opening fails with error
    number 13.
  \<^item> The symbolic link \<^verbatim>\<open>/tmp/link.pdf\<close> to \<^verbatim>\<open>/data/report.txt\<close>.
  \<^item> The directory \<^verbatim>\<open>/secret\<close> of mode 000, which holds the regular files
    \<^verbatim>\<open>report.pdf\<close> and \<^verbatim>\<open>notes.txt\<close> and the directory \<^verbatim>\<open>scans.pdf\<close>, and no
    \<^verbatim>\<open>missing.pdf\<close>: the stat of any path through it fails with error number 13.
  Every path but the link resolves to itself.
\<close>

definition example_fs :: filesystem where
  "example_fs =
     \<lparr>node = map_of
        [(PosixPath ''/'' [''tmp'', ''test.pdf''], RegularFile),
         (PosixPath ''/'' [''tmp'', ''empty.pdf''], RegularFile),
         (PosixPath ''/'' [''tmp'', ''test.PDF''], RegularFile),
         (PosixPath ''/'' [''tmp'', ''test.txt''], RegularFile),
         (PosixPath ''/'' [''data'', ''report.txt''], RegularFile),
         (PosixPath ''/'' [''tmp'', ''.pdf''], RegularFile),
         (PosixPath ''/'' [''tmp'', ''locked.pdf''], RegularFile),
         (PosixPath ''/'' [''tmp'', ''scans.pdf''], Directory),
         (PosixPath ''/'' [''tmp'', ''archive'', ''.pdf''], Directory),
         (PosixPath ''/'' [''tmp'', ''sealed.pdf''], Directory),
         (PosixPath ''/'' [''tmp'', ''link.pdf''], RegularFile),
         (PosixPath ''/'' [''secret'', ''report.pdf''], RegularFile),
         (PosixPath ''/'' [''secret'', ''notes.txt''], RegularFile),
         (PosixPath ''/'' [''secret'', ''scans.pdf''], Directory)],
      stat_errno = map_of
        [(PosixPath ''/'' [''secret'', ''report.pdf''], 13),
         (PosixPath ''/'' [''secret'', ''notes.txt''], 13),
         (PosixPath ''/'' [''secret'', ''scans.pdf''], 13),
         (PosixPath ''/'' [''secret'', ''missing.pdf''], 13)],
      open_errno = map_of
        [(PosixPath ''/'' [''tmp'', ''locked.pdf''], 13),
         (PosixPath ''/'' [''tmp'', ''sealed.pdf''], 13),
         (PosixPath ''/'' [''secret'', ''report.pdf''], 13),
         (PosixPath ''/'' [''secret'', ''notes.txt''], 13),
         (PosixPath ''/'' [''secret'', ''scans.pdf''], 13),
         (PosixPath ''/'' [''secret'', ''missing.pdf''], 13)],
      is_link = (\<lambda>p. p = PosixPath ''/'' [''tmp'', ''link.pdf'']),
      realpath = (\<lambda>p. if p = PosixPath ''/'' [''tmp'', ''link.pdf'']
                        then PosixPath ''/'' [''data'', ''report.txt''] else p),
      contents = (\<lambda>p. if p = PosixPath ''/'' [''tmp'', ''test.pdf'']
                        then [0x66, 0x61, 0x6B, 0x65, 0x20, 0x70, 0x64, 0x66,
                              0x20, 0x63, 0x6F, 0x6E, 0x74, 0x65, 0x6E, 0x74]
                        else [])\<rparr>"

text \<open>
  Response bodies of a server, and the text carried by the content item of the
  first one, \<^verbatim>\<open>{"text":"Sample PDF text"}\<close>.
\<close>

definition sample_text :: string where
  \<open>sample_text = ''{"text":"Sample PDF text"}''\<close>

definition text_body :: string where
  \<open>text_body =
     ''{"jsonrpc":"2.0","id":1,"result":{"content":[{"type":"text","text":"{''
     @ [CHR 0x5C] @ ''"text'' @ [CHR 0x5C] @ ''":'' @ [CHR 0x5C] @ ''"Sample PDF text''
     @ [CHR 0x5C] @ ''"}"}]}}''\<close>

definition empty_body :: string where
  \<open>empty_body = ''{"jsonrpc":"2.0","id":1,"result":{"content":[]}}''\<close>

definition error_body :: string where
  \<open>error_body =
     ''{"jsonrpc":"2.0","id":1,"error":{"code":-32600,"message":"Invalid request"}}''\<close>

definition image_body :: string where
  \<open>image_body =
     ''{"jsonrpc":"2.0","id":1,"result":{"content":[{"type":"image","data":"AAAA"}]}}''\<close>

definition untexted_body :: string where
  \<open>untexted_body = ''{"jsonrpc":"2.0","id":1,"result":{"content":[{"type":"text"}]}}''\<close>

definition null_result_body :: string where
  \<open>null_result_body = ''{"jsonrpc":"2.0","id":1,"result":null}''\<close>

definition plain_item_body :: string where
  \<open>plain_item_body = ''{"jsonrpc":"2.0","id":1,"result":{"content":["plain"]}}''\<close>

definition number_text_body :: string where
  \<open>number_text_body =
     ''{"jsonrpc":"2.0","id":1,"result":{"content":[{"type":"text","text":42}]}}''\<close>

definition list_text_body :: string where
  \<open>list_text_body =
     ''{"jsonrpc":"2.0","id":1,"result":{"content":[{"type":"text","text":"[1]"}]}}''\<close>

definition bad_text_body :: string where
  \<open>bad_text_body =
     ''{"jsonrpc":"2.0","id":1,"result":{"content":[{"type":"text","text":"not json"}]}}''\<close>

definition null_error_body :: string where
  \<open>null_error_body = ''{"jsonrpc":"2.0","id":1,"error":null}''\<close>

definition string_error_body :: string where
  \<open>string_error_body = ''{"jsonrpc":"2.0","id":1,"error":"boom"}''\<close>

text \<open>
  A library whose \<^verbatim>\<open>json.loads\<close> decodes these strings and the text \<^verbatim>\<open>[1]\<close>
  (and no other), and whose \<^verbatim>\<open>urljoin\<close> appends a relative reference to a base
  that ends in a slash.
\<close>

definition example_library :: library where
  "example_library =
     \<lparr>json_loads = map_of
        [(sample_text, JObj [(''text'', JStr ''Sample PDF text'')]),
         (text_body,
          JObj [(''jsonrpc'', JStr ''2.0''), (''id'', JInt 1),
                (''result'', JObj [(''content'',
                   JArr [JObj [(''type'', JStr ''text''), (''text'', JStr sample_text)]])])]),
         (empty_body,
          JObj [(''jsonrpc'', JStr ''2.0''), (''id'', JInt 1),
                (''result'', JObj [(''content'', JArr [])])]),
         (error_body,
          JObj [(''jsonrpc'', JStr ''2.0''), (''id'', JInt 1),
                (''error'', JObj [(''code'', JInt (- 32600)),
                                  (''message'', JStr ''Invalid request'')])]),
         (image_body,
          JObj [(''jsonrpc'', JStr ''2.0''), (''id'', JInt 1),
                (''result'', JObj [(''content'',
                   JArr [JObj [(''type'', JStr ''image''), (''data'', JStr ''AAAA'')]])])]),
         (untexted_body,
          JObj [(''jsonrpc'', JStr ''2.0''), (''id'', JInt 1),
                (''result'', JObj [(''content'', JArr [JObj [(''type'', JStr ''text'')]])])]),
         (null_result_body,
          JObj [(''jsonrpc'', JStr ''2.0''), (''id'', JInt 1), (''result'', JNull)]),
         (plain_item_body,
          JObj [(''jsonrpc'', JStr ''2.0''), (''id'', JInt 1),
                (''result'', JObj [(''content'', JArr [JStr ''plain''])])]),
         (number_text_body,
          JObj [(''jsonrpc'', JStr ''2.0''), (''id'', JInt 1),
                (''result'', JObj [(''content'',
                   JArr [JObj [(''type'', JStr ''text''), (''text'', JInt 42)]])])]),
         (list_text_body,
          JObj [(''jsonrpc'', JStr ''2.0''), (''id'', JInt 1),
                (''result'', JObj [(''content'',
                   JArr [JObj [(''type'', JStr ''text''), (''text'', JStr ''[1]'')]])])]),
         (''[1]'', JArr [JInt 1]),
         (null_error_body,
          JObj [(''jsonrpc'', JStr ''2.0''), (''id'', JInt 1), (''error'', JNull)]),
         (string_error_body,
          JObj [(''jsonrpc'', JStr ''2.0''), (''id'', JInt 1), (''error'', JStr ''boom'')]),
         (bad_text_body,
          JObj [(''jsonrpc'', JStr ''2.0''), (''id'', JInt 1),
                (''result'', JObj [(''content'',
                   JArr [JObj [(''type'', JStr ''text''), (''text'', JStr ''not json'')]])])])],
      urljoin = (\<lambda>base url. base @ url),
      repr = (\<lambda>v. [])\<rparr>"

text \<open>
  A world that answers the requests in turn from a list of outcomes, whatever
  is asked, and with a time-out once the list is used up; nothing issued yet.
\<close>

definition mock_world :: "(pyerr + response) list \<Rightarrow> world" where
  "mock_world outcomes =
     \<lparr>server = (\<lambda>earlier r. if length earlier < length outcomes then outcomes ! length earlier
                              else Inl (HTTPError ReadTimeout)),
      issued = []\<rparr>"

definition example_client :: client where
  "example_client = init example_library ''http://localhost:3000/'' None"


section \<open>Auxiliary facts\<close>

lemma and_then_simps [simp]:
  "and_then (Inl e) f = Inl e" "and_then (Inr x) f = f x"
  by (simp_all add: and_then_def)

subsection \<open>Base64: decoding undoes encoding\<close>

lemma index_of_nth: "distinct xs \<Longrightarrow> n < length xs \<Longrightarrow> index_of (xs ! n) xs = Some n"
proof (induction xs arbitrary: n)
  case Nil
  then show ?case by simp
next
  case (Cons x xs)
  show ?case
  proof (cases n)
    case 0
    then show ?thesis by simp
  next
    case (Suc m)
    with Cons.prems have "xs ! m \<noteq> x" "distinct xs" "m < length xs" by auto
    with Cons.IH [of m] Suc show ?thesis by simp
  qed
qed

lemma b64_alphabet_distinct: "distinct b64_alphabet"
  by (simp add: b64_alphabet_def)

lemma b64_alphabet_length: "length b64_alphabet = 64"
  by (simp add: b64_alphabet_def)

lemma b64_index_char: "n < 64 \<Longrightarrow> b64_index (b64_char n) = Some n"
  unfolding b64_index_def b64_char_def
  by (rule index_of_nth [OF b64_alphabet_distinct]) (simp add: b64_alphabet_length)

lemma b64_char_in_alphabet: "n < 64 \<Longrightarrow> b64_char n \<in> set b64_alphabet"
  by (simp add: b64_char_def b64_alphabet_length)

lemma pad_not_in_alphabet: "CHR ''='' \<notin> set b64_alphabet"
  by (simp add: b64_alphabet_def)

lemma b64_char_not_pad: "n < 64 \<Longrightarrow> b64_char n \<noteq> CHR ''=''"
  using b64_char_in_alphabet pad_not_in_alphabet by metis

lemma byte_bound: "unat (a :: byte) < 256"
proof -
  have "unat a < 2 ^ LENGTH(8)" by (rule unsigned_less)
  then show ?thesis by simp
qed

lemma div_small: "(b::nat) < n \<Longrightarrow> (a * n + b) div n = a"
  by simp

lemma mod_small: "(b::nat) < n \<Longrightarrow> (a * n + b) mod n = b"
  by simp

lemma hi_nibble: "(y::nat) < 256 \<Longrightarrow> y div 16 < 16"
  by (simp add: less_mult_imp_div_less)

lemma hi_pair: "(z::nat) < 256 \<Longrightarrow> z div 64 < 4"
  by (simp add: less_mult_imp_div_less)

lemma hi_sextet: "(x::nat) < 256 \<Longrightarrow> x div 4 < 64"
  by (simp add: less_mult_imp_div_less)

lemma sextets_nat:
  fixes x y z :: nat
  assumes "x < 256" "y < 256" "z < 256"
  shows "x div 4 < 64" and "x mod 4 * 16 + y div 16 < 64"
    and "y mod 16 * 4 + z div 64 < 64" and "z mod 64 < 64"
    and "x mod 4 * 16 < 64" and "y mod 16 * 4 < 64"
proof -
  have x4: "x mod 4 < 4" and y16: "y mod 16 < 16" by simp_all
  note hy = hi_nibble [OF assms(2)] and hz = hi_pair [OF assms(3)]
  show "x div 4 < 64" by (rule hi_sextet [OF assms(1)])
  show "x mod 4 * 16 + y div 16 < 64" using x4 hy by linarith
  show "y mod 16 * 4 + z div 64 < 64" using y16 hz by linarith
  show "z mod 64 < 64" by simp
  show "x mod 4 * 16 < 64" using x4 by linarith
  show "y mod 16 * 4 < 64" using y16 by linarith
qed

lemma regroup_nat:
  fixes x y z :: nat
  assumes "y < 256" "z < 256"
  shows "x div 4 * 4 + (x mod 4 * 16 + y div 16) div 16 = x"
    and "(x mod 4 * 16 + y div 16) mod 16 * 16 + (y mod 16 * 4 + z div 64) div 4 = y"
    and "(y mod 16 * 4 + z div 64) mod 4 * 64 + z mod 64 = z"
    and "x div 4 * 4 + (x mod 4 * 16) div 16 = x"
    and "(x mod 4 * 16 + y div 16) mod 16 * 16 + (y mod 16 * 4) div 4 = y"
proof -
  note hy = hi_nibble [OF assms(1)] and hz = hi_pair [OF assms(2)]
  have a: "(x mod 4 * 16 + y div 16) div 16 = x mod 4" by (rule div_small [OF hy])
  have b: "(x mod 4 * 16 + y div 16) mod 16 = y div 16" by (rule mod_small [OF hy])
  have c: "(y mod 16 * 4 + z div 64) div 4 = y mod 16" by (rule div_small [OF hz])
  have d: "(y mod 16 * 4 + z div 64) mod 4 = z div 64" by (rule mod_small [OF hz])
  have e: "(x mod 4 * 16) div 16 = x mod 4" by simp
  have f: "(y mod 16 * 4) div 4 = y mod 16" by simp
  show "x div 4 * 4 + (x mod 4 * 16 + y div 16) div 16 = x"
    unfolding a by simp
  show "(x mod 4 * 16 + y div 16) mod 16 * 16 + (y mod 16 * 4 + z div 64) div 4 = y"
    unfolding b c by simp
  show "(y mod 16 * 4 + z div 64) mod 4 * 64 + z mod 64 = z"
    unfolding d by simp
  show "x div 4 * 4 + (x mod 4 * 16) div 16 = x"
    unfolding e by simp
  show "(x mod 4 * 16 + y div 16) mod 16 * 16 + (y mod 16 * 4) div 4 = y"
    unfolding b f by simp
qed

lemmas sextets = sextets_nat [OF byte_bound byte_bound byte_bound]

lemma regroup:
  fixes a b c :: byte
  shows "of_nat (unat a div 4 * 4 + (unat a mod 4 * 16 + unat b div 16) div 16) = a"
    and "of_nat ((unat a mod 4 * 16 + unat b div 16) mod 16 * 16
          + (unat b mod 16 * 4 + unat c div 64) div 4) = b"
    and "of_nat ((unat b mod 16 * 4 + unat c div 64) mod 4 * 64 + unat c mod 64) = c"
    and "of_nat (unat a div 4 * 4 + (unat a mod 4 * 16) div 16) = a"
    and "of_nat ((unat a mod 4 * 16 + unat b div 16) mod 16 * 16 + (unat b mod 16 * 4) div 4) = b"
  unfolding regroup_nat [OF byte_bound byte_bound] by simp_all

lemma b64decode_b64encode: "b64decode (b64encode bs) = Some bs"
proof (induction bs rule: b64encode.induct)
  case 1
  show ?case by simp
next
  case (2 a)
  define s0 s1 where "s0 = unat a div 4" and "s1 = unat a mod 4 * 16"
  have enc: "b64encode [a] = [b64_char s0, b64_char s1, CHR ''='', CHR ''='']"
    by (simp add: s0_def s1_def)
  have idx: "b64_index (b64_char s0) = Some s0" "b64_index (b64_char s1) = Some s1"
    unfolding s0_def s1_def by (rule b64_index_char, rule sextets)+
  have bytes: "(of_nat (s0 * 4 + s1 div 16) :: byte) = a"
    unfolding s0_def s1_def by (rule regroup)
  show ?case unfolding enc
    by (simp add: idx bytes del: of_nat_add of_nat_mult)
next
  case (3 a b)
  define s0 s1 s2 where "s0 = unat a div 4" and "s1 = unat a mod 4 * 16 + unat b div 16"
    and "s2 = unat b mod 16 * 4"
  have enc: "b64encode [a, b] = [b64_char s0, b64_char s1, b64_char s2, CHR ''='']"
    by (simp add: s0_def s1_def s2_def)
  have idx: "b64_index (b64_char s0) = Some s0" "b64_index (b64_char s1) = Some s1"
      "b64_index (b64_char s2) = Some s2"
    unfolding s0_def s1_def s2_def by (rule b64_index_char, rule sextets)+
  have ne: "b64_char s2 \<noteq> CHR ''=''"
    unfolding s2_def by (rule b64_char_not_pad, rule sextets)
  have bytes: "(of_nat (s0 * 4 + s1 div 16) :: byte) = a"
      "(of_nat (s1 mod 16 * 16 + s2 div 4) :: byte) = b"
    unfolding s0_def s1_def s2_def by (rule regroup)+
  show ?case unfolding enc
    by (simp add: idx ne bytes del: of_nat_add of_nat_mult)
next
  case (4 a b c rest)
  define s0 s1 s2 s3 where "s0 = unat a div 4" and "s1 = unat a mod 4 * 16 + unat b div 16"
    and "s2 = unat b mod 16 * 4 + unat c div 64" and "s3 = unat c mod 64"
  have enc: "b64encode (a # b # c # rest) =
      b64_char s0 # b64_char s1 # b64_char s2 # b64_char s3 # b64encode rest"
    by (simp add: s0_def s1_def s2_def s3_def)
  have idx: "b64_index (b64_char s0) = Some s0" "b64_index (b64_char s1) = Some s1"
      "b64_index (b64_char s2) = Some s2" "b64_index (b64_char s3) = Some s3"
    unfolding s0_def s1_def s2_def s3_def by (rule b64_index_char, rule sextets)+
  have ne: "b64_char s2 \<noteq> CHR ''=''" "b64_char s3 \<noteq> CHR ''=''"
    unfolding s2_def s3_def by (rule b64_char_not_pad, rule sextets)+
  have bytes: "(of_nat (s0 * 4 + s1 div 16) :: byte) = a"
      "(of_nat (s1 mod 16 * 16 + s2 div 4) :: byte) = b"
      "(of_nat (s2 mod 4 * 64 + s3) :: byte) = c"
    unfolding s0_def s1_def s2_def s3_def by (rule regroup)+
  show ?case unfolding enc
    by (simp add: idx ne bytes "4.IH" del: of_nat_add of_nat_mult)
qed

lemma b64encode_chars: "set (b64encode bs) \<subseteq> set b64_alphabet \<union> {CHR ''=''}"
  by (induction bs rule: b64encode.induct) (simp_all add: b64_char_in_alphabet sextets)

lemma b64encode_length: "length (b64encode bs) = 4 * ((length bs + 2) div 3)"
proof (induction bs rule: b64encode.induct)
  case (4 a b c rest)
  have "(length (a # b # c # rest) + 2) div 3 = (length rest + 2) div 3 + 1"
    by simp
  then show ?case using 4 by simp
qed simp_all

lemma b64encode_plain:
  "CHR 0x0A \<notin> set (b64encode bs) \<and> CHR 0x0D \<notin> set (b64encode bs)
   \<and> CHR ''-'' \<notin> set (b64encode bs) \<and> CHR ''_'' \<notin> set (b64encode bs)"
proof -
  have "CHR 0x0A \<notin> set b64_alphabet \<union> {CHR ''=''}" "CHR 0x0D \<notin> set b64_alphabet \<union> {CHR ''=''}"
    "CHR ''-'' \<notin> set b64_alphabet \<union> {CHR ''=''}" "CHR ''_'' \<notin> set b64_alphabet \<union> {CHR ''=''}"
    by (simp_all add: b64_alphabet_def)
  with b64encode_chars [of bs] show ?thesis by blast
qed


section \<open>The envelope builder\<close>

text \<open>
  Claim C5. For every method, params mapping, tool name, arguments mapping and id
  (an integer or a string), \<open>create_request\<close> returns exactly the mapping with the
  four keys jsonrpc, id, method, params, and \<open>create_tool_call_request\<close> returns the
  same shape with method \<open>tools/call\<close> and params holding the tool name and the
  arguments; the example of the specification (tool \<open>extract_text\<close>, argument
  fileContent \<open>abc\<close>, id 7) gives the mapping written there; the value under
  jsonrpc is always the string \<open>2.0\<close>. Both are functions of their arguments alone.
\<close>

theorem C5_envelopes_exact:
  "create_request method params rid =
     JObj [(''jsonrpc'', JStr ''2.0''), (''id'', json_of_id rid),
           (''method'', JStr method), (''params'', JObj params)]
   \<and> create_tool_call_request tool_name arguments rid =
     JObj [(''jsonrpc'', JStr ''2.0''), (''id'', json_of_id rid),
           (''method'', JStr ''tools/call''),
           (''params'', JObj [(''name'', JStr tool_name), (''arguments'', JObj arguments)])]
   \<and> create_tool_call_request ''extract_text'' [(''fileContent'', JStr ''abc'')] (IntId 7) =
     JObj [(''jsonrpc'', JStr ''2.0''), (''id'', JInt 7),
           (''method'', JStr ''tools/call''),
           (''params'', JObj [(''name'', JStr ''extract_text''),
                              (''arguments'', JObj [(''fileContent'', JStr ''abc'')])])]
   \<and> (\<exists>kvs. create_request method params rid = JObj kvs
              \<and> map_of kvs ''jsonrpc'' = Some (JStr ''2.0''))
   \<and> (\<exists>kvs. create_tool_call_request tool_name arguments rid = JObj kvs
              \<and> map_of kvs ''jsonrpc'' = Some (JStr ''2.0''))"
  by (simp add: create_request_def create_tool_call_request_def)


section \<open>The file validator and encoder\<close>

lemma Path_examples:
  "Path ''/nonexistent/file.txt'' = PosixPath ''/'' [''nonexistent'', ''file.txt'']"
  "Path ''/tmp/test.txt'' = PosixPath ''/'' [''tmp'', ''test.txt'']"
  "Path ''/tmp/test.pdf'' = PosixPath ''/'' [''tmp'', ''test.pdf'']"
  "Path ''/tmp/empty.pdf'' = PosixPath ''/'' [''tmp'', ''empty.pdf'']"
  "Path ''/tmp/test.PDF'' = PosixPath ''/'' [''tmp'', ''test.PDF'']"
  "Path ''/tmp/.pdf'' = PosixPath ''/'' [''tmp'', ''.pdf'']"
  "Path ''/tmp/scans.pdf'' = PosixPath ''/'' [''tmp'', ''scans.pdf'']"
  "Path ''/tmp/archive/.pdf'' = PosixPath ''/'' [''tmp'', ''archive'', ''.pdf'']"
  "Path ''/tmp/link.pdf'' = PosixPath ''/'' [''tmp'', ''link.pdf'']"
  "Path ''/tmp/locked.pdf'' = PosixPath ''/'' [''tmp'', ''locked.pdf'']"
  "Path ''/tmp/sealed.pdf'' = PosixPath ''/'' [''tmp'', ''sealed.pdf'']"
  "Path ''/secret/report.pdf'' = PosixPath ''/'' [''secret'', ''report.pdf'']"
  "Path ''/secret/notes.txt'' = PosixPath ''/'' [''secret'', ''notes.txt'']"
  "Path ''/secret/scans.pdf'' = PosixPath ''/'' [''secret'', ''scans.pdf'']"
  "Path ''/secret/missing.pdf'' = PosixPath ''/'' [''secret'', ''missing.pdf'']"
  by (simp_all add: Path_def splitroot_def)

lemma suffix_examples:
  "lower (suffix (PosixPath ''/'' [''nonexistent'', ''file.txt''])) = ''.txt''"
  "lower (suffix (PosixPath ''/'' [''tmp'', ''test.txt''])) = ''.txt''"
  "lower (suffix (PosixPath ''/'' [''tmp'', ''test.pdf''])) = ''.pdf''"
  "lower (suffix (PosixPath ''/'' [''tmp'', ''empty.pdf''])) = ''.pdf''"
  "lower (suffix (PosixPath ''/'' [''tmp'', ''test.PDF''])) = ''.pdf''"
  "lower (suffix (PosixPath ''/'' [''tmp'', ''.pdf''])) = []"
  "lower (suffix (PosixPath ''/'' [''tmp'', ''scans.pdf''])) = ''.pdf''"
  "lower (suffix (PosixPath ''/'' [''tmp'', ''archive'', ''.pdf''])) = []"
  "lower (suffix (PosixPath ''/'' [''tmp'', ''link.pdf''])) = ''.pdf''"
  "lower (suffix (PosixPath ''/'' [''tmp'', ''locked.pdf''])) = ''.pdf''"
  "lower (suffix (PosixPath ''/'' [''tmp'', ''sealed.pdf''])) = ''.pdf''"
  "lower (suffix (PosixPath ''/'' [''secret'', ''notes.txt''])) = ''.txt''"
  by (simp_all add: name_def suffix_def rfind_def lower_def lower_char_def)

lemma str_path_examples:
  "str_path (PosixPath ''/'' [''tmp'', ''scans.pdf'']) = ''/tmp/scans.pdf''"
  "str_path (PosixPath ''/'' [''tmp'', ''sealed.pdf'']) = ''/tmp/sealed.pdf''"
  "str_path (PosixPath ''/'' [''tmp'', ''locked.pdf'']) = ''/tmp/locked.pdf''"
  "str_path (PosixPath ''/'' [''secret'', ''report.pdf'']) = ''/secret/report.pdf''"
  "str_path (PosixPath ''/'' [''secret'', ''notes.txt'']) = ''/secret/notes.txt''"
  "str_path (PosixPath ''/'' [''secret'', ''scans.pdf'']) = ''/secret/scans.pdf''"
  "str_path (PosixPath ''/'' [''secret'', ''missing.pdf'']) = ''/secret/missing.pdf''"
  by (simp_all add: str_path_def)

subsection \<open>What \<^verbatim>\<open>path.exists()\<close> answers\<close>

lemma exists_path_found:
  "node fs p = Some k \<Longrightarrow> stat_errno fs p = None \<Longrightarrow> exists_path fs p = Inr True"
  by (simp add: exists_path_def os_stat_def)

lemma exists_path_absent:
  "node fs p = None \<Longrightarrow> stat_errno fs p = None \<Longrightarrow> exists_path fs p = Inr False"
  by (simp add: exists_path_def os_stat_def ignore_error_def)

lemma exists_path_ignored:
  "stat_errno fs p = Some n \<Longrightarrow> ignore_error n \<Longrightarrow> exists_path fs p = Inr False"
  by (simp add: exists_path_def os_stat_def)

lemma exists_path_raised:
  "stat_errno fs p = Some n \<Longrightarrow> \<not> ignore_error n \<Longrightarrow>
   exists_path fs p = Inl (OSError n (str_path p))"
  by (simp add: exists_path_def os_stat_def)

lemma validate_by_exists:
  "validate_pdf_path fs p =
     and_then (exists_path fs (Path p)) (\<lambda>found.
       if \<not> found then Inl (FileNotFoundError (''PDF file not found: '' @ p))
       else if lower (suffix (Path p)) \<noteq> ''.pdf'' then Inl (ValueError (''File is not a PDF: '' @ p))
       else Inr (realpath fs (Path p)))"
  by (simp add: validate_pdf_path_def Let_def)

lemma validate_accepts:
  "node fs (Path p) = Some k \<Longrightarrow> stat_errno fs (Path p) = None \<Longrightarrow>
   lower (suffix (Path p)) = ''.pdf'' \<Longrightarrow>
   validate_pdf_path fs p = Inr (realpath fs (Path p))"
  by (simp add: validate_by_exists exists_path_found)

text \<open>
  Claim C3, as the code has it. For every path where \<^verbatim>\<open>path.exists()\<close> answers
  false (nothing is there and the stat fails for no other reason, or the stat
  fails with one of the error numbers that \<^verbatim>\<open>exists\<close> ignores),
  \<open>validate_pdf_path\<close> fails with \<open>FileNotFoundError\<close>, whatever the extension;
  for every path that \<^verbatim>\<open>exists\<close> finds and whose extension, lower-cased, is not
  \<^verbatim>\<open>.pdf\<close>, it fails with \<open>ValueError\<close>; the existence check comes first. When
  the stat fails with any other error number, that error of the operating
  system is what \<open>validate_pdf_path\<close> raises.
\<close>

theorem C3_validate_errors:
  "(node fs (Path p) = None \<and> stat_errno fs (Path p) = None \<longrightarrow>
      validate_pdf_path fs p = Inl (FileNotFoundError (''PDF file not found: '' @ p)))
   \<and> (node fs (Path p) \<noteq> None \<and> stat_errno fs (Path p) = None
        \<and> lower (suffix (Path p)) \<noteq> ''.pdf'' \<longrightarrow>
      validate_pdf_path fs p = Inl (ValueError (''File is not a PDF: '' @ p)))
   \<and> (\<forall>n. stat_errno fs (Path p) = Some n \<and> ignore_error n \<longrightarrow>
      validate_pdf_path fs p = Inl (FileNotFoundError (''PDF file not found: '' @ p)))
   \<and> (\<forall>n. stat_errno fs (Path p) = Some n \<and> \<not> ignore_error n \<longrightarrow>
      validate_pdf_path fs p = Inl (OSError n (str_path (Path p))))"
proof (intro conjI impI allI)
  assume "node fs (Path p) = None \<and> stat_errno fs (Path p) = None"
  then have "exists_path fs (Path p) = Inr False"
    by (simp add: exists_path_absent)
  then show "validate_pdf_path fs p = Inl (FileNotFoundError (''PDF file not found: '' @ p))"
    by (simp add: validate_by_exists)
next
  assume h: "node fs (Path p) \<noteq> None \<and> stat_errno fs (Path p) = None
      \<and> lower (suffix (Path p)) \<noteq> ''.pdf''"
  then obtain k where "node fs (Path p) = Some k" by auto
  with h have "exists_path fs (Path p) = Inr True"
    by (simp add: exists_path_found)
  with h show "validate_pdf_path fs p = Inl (ValueError (''File is not a PDF: '' @ p))"
    by (simp add: validate_by_exists)
next
  fix n
  assume "stat_errno fs (Path p) = Some n \<and> ignore_error n"
  then have "exists_path fs (Path p) = Inr False"
    by (simp add: exists_path_ignored)
  then show "validate_pdf_path fs p = Inl (FileNotFoundError (''PDF file not found: '' @ p))"
    by (simp add: validate_by_exists)
next
  fix n
  assume "stat_errno fs (Path p) = Some n \<and> \<not> ignore_error n"
  then have "exists_path fs (Path p) = Inl (OSError n (str_path (Path p)))"
    by (simp add: exists_path_raised)
  then show "validate_pdf_path fs p = Inl (OSError n (str_path (Path p)))"
    by (simp add: validate_by_exists)
qed

theorem C3_validate_errors_witness:
  "node example_fs (Path ''/nonexistent/file.txt'') = None
   \<and> stat_errno example_fs (Path ''/nonexistent/file.txt'') = None
   \<and> lower (suffix (Path ''/nonexistent/file.txt'')) \<noteq> ''.pdf''
   \<and> validate_pdf_path example_fs ''/nonexistent/file.txt''
       = Inl (FileNotFoundError ''PDF file not found: /nonexistent/file.txt'')
   \<and> node example_fs (Path ''/tmp/test.txt'') \<noteq> None
   \<and> stat_errno example_fs (Path ''/tmp/test.txt'') = None
   \<and> lower (suffix (Path ''/tmp/test.txt'')) \<noteq> ''.pdf''
   \<and> validate_pdf_path example_fs ''/tmp/test.txt''
       = Inl (ValueError ''File is not a PDF: /tmp/test.txt'')
   \<and> stat_errno example_fs (Path ''/secret/report.pdf'') = Some 13
   \<and> \<not> ignore_error 13
   \<and> validate_pdf_path example_fs ''/secret/report.pdf''
       = Inl (OSError 13 ''/secret/report.pdf'')"
proof -
  have a: "node example_fs (Path ''/nonexistent/file.txt'') = None
      \<and> stat_errno example_fs (Path ''/nonexistent/file.txt'') = None"
    by (simp add: Path_examples example_fs_def)
  have b: "lower (suffix (Path ''/nonexistent/file.txt'')) \<noteq> ''.pdf''"
    by (simp add: Path_examples suffix_examples)
  have c: "node example_fs (Path ''/tmp/test.txt'') \<noteq> None
      \<and> stat_errno example_fs (Path ''/tmp/test.txt'') = None
      \<and> lower (suffix (Path ''/tmp/test.txt'')) \<noteq> ''.pdf''"
    by (simp add: Path_examples suffix_examples example_fs_def)
  have d: "stat_errno example_fs (Path ''/secret/report.pdf'') = Some 13 \<and> \<not> ignore_error 13"
    by (simp add: Path_examples example_fs_def ignore_error_def)
  have s: "str_path (Path ''/secret/report.pdf'') = ''/secret/report.pdf''"
    by (simp add: Path_examples str_path_examples)
  note t1 = C3_validate_errors [of example_fs "''/nonexistent/file.txt''",
      THEN conjunct1, rule_format, OF a]
  note t2 = C3_validate_errors [of example_fs "''/tmp/test.txt''",
      THEN conjunct2, THEN conjunct1, rule_format, OF c]
  note t3 = C3_validate_errors [of example_fs "''/secret/report.pdf''",
      THEN conjunct2, THEN conjunct2, THEN conjunct2, rule_format, OF d, unfolded s]
  show ?thesis
    using a b c d t1 t2 t3 by simp
qed

text \<open>
  The claim as stated fails where the stat behind \<^verbatim>\<open>exists\<close> is refused. Nothing
  is at \<^verbatim>\<open>/secret/missing.pdf\<close>, yet the validation raises the permission error
  of the stat, not \<open>FileNotFoundError\<close>; \<^verbatim>\<open>/secret/notes.txt\<close> exists and has
  another extension, yet the validation raises the same error, not
  \<open>ValueError\<close>.
\<close>

theorem C3_counterexample:
  "node example_fs (Path ''/secret/missing.pdf'') = None
   \<and> validate_pdf_path example_fs ''/secret/missing.pdf''
       = Inl (OSError 13 ''/secret/missing.pdf'')
   \<and> node example_fs (Path ''/secret/notes.txt'') = Some RegularFile
   \<and> lower (suffix (Path ''/secret/notes.txt'')) = ''.txt''
   \<and> validate_pdf_path example_fs ''/secret/notes.txt''
       = Inl (OSError 13 ''/secret/notes.txt'')"
proof -
  have a: "node example_fs (Path ''/secret/missing.pdf'') = None"
    by (simp add: Path_examples example_fs_def)
  have ea: "exists_path example_fs (PosixPath ''/'' [''secret'', ''missing.pdf''])
      = Inl (OSError 13 ''/secret/missing.pdf'')"
    by (simp add: exists_path_def os_stat_def ignore_error_def str_path_examples example_fs_def)
  have b: "validate_pdf_path example_fs ''/secret/missing.pdf''
      = Inl (OSError 13 ''/secret/missing.pdf'')"
    by (simp add: validate_by_exists Path_examples ea)
  have c: "node example_fs (Path ''/secret/notes.txt'') = Some RegularFile"
    by (simp add: Path_examples example_fs_def)
  have d: "lower (suffix (Path ''/secret/notes.txt'')) = ''.txt''"
    by (simp add: Path_examples suffix_examples)
  have ee: "exists_path example_fs (PosixPath ''/'' [''secret'', ''notes.txt''])
      = Inl (OSError 13 ''/secret/notes.txt'')"
    by (simp add: exists_path_def os_stat_def ignore_error_def str_path_examples example_fs_def)
  have e: "validate_pdf_path example_fs ''/secret/notes.txt''
      = Inl (OSError 13 ''/secret/notes.txt'')"
    by (simp add: validate_by_exists Path_examples ee)
  show ?thesis
    using a b c d e by (intro conjI)
qed


lemma read_by_open:
  "validate_pdf_path fs p = Inr q \<Longrightarrow>
   read_pdf_as_base64 fs p = and_then (open_read fs q) (\<lambda>pdf_bytes. Inr (b64encode pdf_bytes))"
  by (simp add: read_pdf_as_base64_def)

lemma open_read_bytes: "open_read fs q = Inr bs \<Longrightarrow> bs = contents fs q"
  by (auto simp: open_read_def split: option.splits kind.splits)

text \<open>
  Claim C4, as the code has it. For every regular file that
  \<open>validate_pdf_path\<close> accepts and that can then be opened and read,
  \<open>read_pdf_as_base64\<close> returns the base64 encoding of the file's bytes, and
  standard base64 decoding of that string gives back exactly those bytes, for
  any number of bytes (none, or a million); the empty file encodes to the
  empty string; the output has four characters for every three bytes begun,
  all from the standard alphabet or the padding character, so it has no line
  break and none of the two characters of the URL-safe alphabet. Whatever
  string the function returns decodes to the bytes of the file. When opening
  or reading the accepted file fails, the error of the operating system is
  raised and no string is returned.
\<close>

theorem C4_base64_round_trip:
  assumes "validate_pdf_path fs p = Inr q"
  shows "(node fs q = Some RegularFile \<and> open_errno fs q = None \<longrightarrow>
            read_pdf_as_base64 fs p = Inr (b64encode (contents fs q)))
    \<and> (\<forall>s. read_pdf_as_base64 fs p = Inr s \<longrightarrow> b64decode s = Some (contents fs q))
    \<and> (\<forall>n. open_errno fs q = Some n \<longrightarrow>
            read_pdf_as_base64 fs p = Inl (os_error n (str_path q)))
    \<and> b64decode (b64encode (contents fs q)) = Some (contents fs q)
    \<and> b64encode [] = []
    \<and> length (b64encode (contents fs q)) = 4 * ((length (contents fs q) + 2) div 3)
    \<and> set (b64encode (contents fs q)) \<subseteq> set b64_alphabet \<union> {CHR ''=''}
    \<and> CHR 0x0A \<notin> set (b64encode (contents fs q))
    \<and> CHR 0x0D \<notin> set (b64encode (contents fs q))
    \<and> CHR ''-'' \<notin> set (b64encode (contents fs q))
    \<and> CHR ''_'' \<notin> set (b64encode (contents fs q))"
proof -
  note r = read_by_open [OF assms]
  have a: "node fs q = Some RegularFile \<and> open_errno fs q = None \<longrightarrow>
      read_pdf_as_base64 fs p = Inr (b64encode (contents fs q))"
    by (simp add: r open_read_def)
  have b: "\<forall>s. read_pdf_as_base64 fs p = Inr s \<longrightarrow> b64decode s = Some (contents fs q)"
  proof (intro allI impI)
    fix s
    assume s: "read_pdf_as_base64 fs p = Inr s"
    then obtain bs where o: "open_read fs q = Inr bs" and e: "s = b64encode bs"
      unfolding r by (cases "open_read fs q") auto
    from o have "bs = contents fs q" by (rule open_read_bytes)
    with e show "b64decode s = Some (contents fs q)"
      by (simp add: b64decode_b64encode)
  qed
  have c: "\<forall>n. open_errno fs q = Some n \<longrightarrow>
      read_pdf_as_base64 fs p = Inl (os_error n (str_path q))"
    by (simp add: r open_read_def)
  have d: "b64encode ([] :: byte list) = []" by simp
  from a b c b64decode_b64encode [of "contents fs q"] d b64encode_length [of "contents fs q"]
    b64encode_chars [of "contents fs q"]
    b64encode_plain [of "contents fs q", THEN conjunct1]
    b64encode_plain [of "contents fs q", THEN conjunct2, THEN conjunct1]
    b64encode_plain [of "contents fs q", THEN conjunct2, THEN conjunct2, THEN conjunct1]
    b64encode_plain [of "contents fs q", THEN conjunct2, THEN conjunct2, THEN conjunct2]
  show ?thesis by (intro conjI)
qed

lemma example_validate:
  "validate_pdf_path example_fs ''/tmp/test.pdf'' = Inr (PosixPath ''/'' [''tmp'', ''test.pdf''])"
  "validate_pdf_path example_fs ''/tmp/empty.pdf'' = Inr (PosixPath ''/'' [''tmp'', ''empty.pdf''])"
  "validate_pdf_path example_fs ''/tmp/locked.pdf'' = Inr (PosixPath ''/'' [''tmp'', ''locked.pdf''])"
  by (simp_all add: validate_by_exists exists_path_def os_stat_def Path_examples suffix_examples
      example_fs_def)

lemma example_b64:
  "b64encode [0x66, 0x61, 0x6B, 0x65, 0x20, 0x70, 0x64, 0x66,
      0x20, 0x63, 0x6F, 0x6E, 0x74, 0x65, 0x6E, 0x74] = ''ZmFrZSBwZGYgY29udGVudA==''"
  by (simp add: b64_char_def b64_alphabet_def)

theorem C4_base64_round_trip_witness:
  "validate_pdf_path example_fs ''/tmp/test.pdf'' = Inr (PosixPath ''/'' [''tmp'', ''test.pdf''])
   \<and> node example_fs (PosixPath ''/'' [''tmp'', ''test.pdf'']) = Some RegularFile
   \<and> open_errno example_fs (PosixPath ''/'' [''tmp'', ''test.pdf'']) = None
   \<and> read_pdf_as_base64 example_fs ''/tmp/test.pdf'' = Inr ''ZmFrZSBwZGYgY29udGVudA==''
   \<and> b64decode ''ZmFrZSBwZGYgY29udGVudA=='' =
       Some [0x66, 0x61, 0x6B, 0x65, 0x20, 0x70, 0x64, 0x66,
             0x20, 0x63, 0x6F, 0x6E, 0x74, 0x65, 0x6E, 0x74]
   \<and> validate_pdf_path example_fs ''/tmp/empty.pdf'' = Inr (PosixPath ''/'' [''tmp'', ''empty.pdf''])
   \<and> read_pdf_as_base64 example_fs ''/tmp/empty.pdf'' = Inr []
   \<and> b64decode [] = Some ([] :: byte list)"
proof -
  let ?p = "PosixPath ''/'' [''tmp'', ''test.pdf'']"
  let ?e = "PosixPath ''/'' [''tmp'', ''empty.pdf'']"
  note v = example_validate(1)
  note ve = example_validate(2)
  have k: "node example_fs ?p = Some RegularFile \<and> open_errno example_fs ?p = None"
    by (simp add: example_fs_def)
  have ke: "node example_fs ?e = Some RegularFile \<and> open_errno example_fs ?e = None"
    by (simp add: example_fs_def)
  have c: "contents example_fs ?p =
      [0x66, 0x61, 0x6B, 0x65, 0x20, 0x70, 0x64, 0x66, 0x20, 0x63, 0x6F, 0x6E, 0x74, 0x65, 0x6E, 0x74]"
    by (simp add: example_fs_def)
  have ce: "contents example_fs ?e = []"
    by (simp add: example_fs_def)
  have e0: "b64encode ([] :: byte list) = []"
    by simp
  note r = C4_base64_round_trip [OF v, unfolded c example_b64]
  note re = C4_base64_round_trip [OF ve, unfolded ce e0]
  have d0: "b64decode [] = Some ([] :: byte list)"
    by simp
  show ?thesis
    using v k [THEN conjunct1] k [THEN conjunct2] r [THEN conjunct1, rule_format, OF k]
      r [THEN conjunct2, THEN conjunct2, THEN conjunct2, THEN conjunct1]
      ve re [THEN conjunct1, rule_format, OF ke] d0
    by (intro conjI)
qed

text \<open>
  The claim as stated fails at \<^verbatim>\<open>/tmp/locked.pdf\<close>: the validation accepts this
  regular file, and reading it raises the permission error of the operating
  system, so that no string is returned.
\<close>

theorem C4_counterexample:
  "validate_pdf_path example_fs ''/tmp/locked.pdf'' = Inr (PosixPath ''/'' [''tmp'', ''locked.pdf''])
   \<and> node example_fs (PosixPath ''/'' [''tmp'', ''locked.pdf'']) = Some RegularFile
   \<and> read_pdf_as_base64 example_fs ''/tmp/locked.pdf'' = Inl (OSError 13 ''/tmp/locked.pdf'')"
proof -
  let ?q = "PosixPath ''/'' [''tmp'', ''locked.pdf'']"
  have n: "node example_fs ?q = Some RegularFile"
    by (simp add: example_fs_def)
  have o: "open_read example_fs ?q = Inl (OSError 13 ''/tmp/locked.pdf'')"
    by (simp add: open_read_def os_error_def str_path_examples example_fs_def)
  have r: "read_pdf_as_base64 example_fs ''/tmp/locked.pdf'' = Inl (OSError 13 ''/tmp/locked.pdf'')"
    by (simp add: read_by_open [OF example_validate(3)] o)
  show ?thesis
    using example_validate(3) n r by (intro conjI)
qed


subsection \<open>Names that end in \<^verbatim>\<open>.pdf\<close> and the suffix of \<^verbatim>\<open>pathlib\<close>\<close>

lemma lower_char_dot [simp]: "lower_char (CHR ''.'') = CHR ''.''"
  by (simp add: lower_char_def)

lemma lower_char_eq_dot: "lower_char c = CHR ''.'' \<Longrightarrow> c = CHR ''.''"
proof (cases "map_of (zip ''ABCDEFGHIJKLMNOPQRSTUVWXYZ'' ''abcdefghijklmnopqrstuvwxyz'') c")
  case None
  assume "lower_char c = CHR ''.''"
  with None show ?thesis by (simp add: lower_char_def)
next
  case (Some l)
  assume dot: "lower_char c = CHR ''.''"
  from Some have "(c, l) \<in> set (zip ''ABCDEFGHIJKLMNOPQRSTUVWXYZ'' ''abcdefghijklmnopqrstuvwxyz'')"
    by (rule map_of_SomeD)
  then have "l \<in> set ''abcdefghijklmnopqrstuvwxyz''"
    by (rule set_zip_rightD)
  then have "l \<noteq> CHR ''.''" by auto
  moreover from Some dot have "l = CHR ''.''" by (simp add: lower_char_def)
  ultimately show ?thesis by simp
qed

lemma rfind_last_dot:
  assumes "c1 \<noteq> CHR ''.''" "c2 \<noteq> CHR ''.''" "c3 \<noteq> CHR ''.''"
  shows "rfind (pre @ [CHR ''.'', c1, c2, c3]) (CHR ''.'') = int (length pre)"
  using assms by (simp add: rfind_def)

lemma suffix_of_pdf_name:
  assumes long: "4 < length (name p)" and ends: "name_ends_in_pdf p"
  shows "lower (suffix p) = ''.pdf''"
proof -
  define n where "n = name p"
  define pre where "pre = take (length n - 4) n"
  define tl4 where "tl4 = drop (length n - 4) n"
  have n: "n = pre @ tl4" by (simp add: pre_def tl4_def)
  have pre: "pre \<noteq> []" using long by (auto simp: pre_def n_def)
  have low: "map lower_char tl4 = ''.pdf''"
    using ends by (simp add: name_ends_in_pdf_def lower_def tl4_def n_def)
  then obtain c0 c1 c2 c3 where tl4: "tl4 = [c0, c1, c2, c3]"
    and l0: "lower_char c0 = CHR ''.''" and l1: "lower_char c1 = CHR ''p''"
    and l2: "lower_char c2 = CHR ''d''" and l3: "lower_char c3 = CHR ''f''"
    by (auto simp: map_eq_Cons_conv)
  have c0: "c0 = CHR ''.''" by (rule lower_char_eq_dot [OF l0])
  have c1: "c1 \<noteq> CHR ''.''" using l1 by auto
  have c2: "c2 \<noteq> CHR ''.''" using l2 by auto
  have c3: "c3 \<noteq> CHR ''.''" using l3 by auto
  have nm: "name p = pre @ [CHR ''.'', c1, c2, c3]"
    using n tl4 c0 by (simp add: n_def)
  have rf: "rfind (name p) (CHR ''.'') = int (length pre)"
    unfolding nm by (rule rfind_last_dot [OF c1 c2 c3])
  have "suffix p = [CHR ''.'', c1, c2, c3]"
    using pre by (simp add: suffix_def Let_def rf) (simp add: nm)
  then show ?thesis using l1 l2 l3 by (simp add: lower_def)
qed


lemma name_examples:
  "name (PosixPath ''/'' [''tmp'', ''test.PDF'']) = ''test.PDF''"
  "name (PosixPath ''/'' [''tmp'', ''.pdf'']) = ''.pdf''"
  "name (PosixPath ''/'' [''tmp'', ''link.pdf'']) = ''link.pdf''"
  "name (PosixPath ''/'' [''tmp'', ''scans.pdf'']) = ''scans.pdf''"
  "name (PosixPath ''/'' [''tmp'', ''sealed.pdf'']) = ''sealed.pdf''"
  "name (PosixPath ''/'' [''tmp'', ''archive'', ''.pdf'']) = ''.pdf''"
  "name (PosixPath ''/'' [''secret'', ''report.pdf'']) = ''report.pdf''"
  "name (PosixPath ''/'' [''secret'', ''scans.pdf'']) = ''scans.pdf''"
  by (simp_all add: name_def)

lemma name_ends_examples:
  "name_ends_in_pdf (PosixPath ''/'' [''tmp'', ''test.PDF''])"
  "name_ends_in_pdf (PosixPath ''/'' [''tmp'', ''.pdf''])"
  "name_ends_in_pdf (PosixPath ''/'' [''tmp'', ''link.pdf''])"
  "name_ends_in_pdf (PosixPath ''/'' [''tmp'', ''scans.pdf''])"
  "name_ends_in_pdf (PosixPath ''/'' [''tmp'', ''sealed.pdf''])"
  "name_ends_in_pdf (PosixPath ''/'' [''tmp'', ''archive'', ''.pdf''])"
  "name_ends_in_pdf (PosixPath ''/'' [''secret'', ''report.pdf''])"
  "name_ends_in_pdf (PosixPath ''/'' [''secret'', ''scans.pdf''])"
  by (simp_all add: name_ends_in_pdf_def name_examples lower_def lower_char_def)




text \<open>
  Claim C10, as the code has it. \<open>validate_pdf_path\<close> does not ask whether the
  path is a regular file: for every directory that \<^verbatim>\<open>path.exists()\<close> finds and
  whose name ends in \<^verbatim>\<open>.pdf\<close> in any letter case, with at least one character
  before that ending, it succeeds and returns the resolved path. While that
  path keeps leading to the directory, \<open>read_pdf_as_base64\<close> then fails when
  it opens it, with an error of the operating system that is neither
  \<open>FileNotFoundError\<close> nor \<open>ValueError\<close>: \<^verbatim>\<open>IsADirectoryError\<close> (error number 21)
  when nothing else stops the opening, and otherwise the error that does.
\<close>

theorem C10_directory_accepted:
  assumes "node fs (Path p) = Some Directory" and "stat_errno fs (Path p) = None"
    and "name_ends_in_pdf (Path p)" and "4 < length (name (Path p))"
    and "node fs (realpath fs (Path p)) = Some Directory"
    and "open_errno fs (realpath fs (Path p)) \<noteq> Some 2"
  shows "validate_pdf_path fs p = Inr (realpath fs (Path p))
    \<and> (\<exists>n. n \<noteq> 2 \<and> read_pdf_as_base64 fs p = Inl (OSError n (str_path (realpath fs (Path p)))))
    \<and> (\<forall>m. read_pdf_as_base64 fs p \<noteq> Inl (FileNotFoundError m))
    \<and> (\<forall>m. read_pdf_as_base64 fs p \<noteq> Inl (ValueError m))
    \<and> (open_errno fs (realpath fs (Path p)) = None \<longrightarrow>
          read_pdf_as_base64 fs p = Inl (OSError 21 (str_path (realpath fs (Path p)))))
    \<and> (\<forall>n. open_errno fs (realpath fs (Path p)) = Some n \<longrightarrow>
          read_pdf_as_base64 fs p = Inl (OSError n (str_path (realpath fs (Path p)))))"
proof -
  let ?q = "realpath fs (Path p)"
  have "lower (suffix (Path p)) = ''.pdf''"
    using assms(4) assms(3) by (rule suffix_of_pdf_name)
  with assms(1) assms(2) have v: "validate_pdf_path fs p = Inr ?q"
    by (rule validate_accepts)
  note r = read_by_open [OF v]
  have none: "open_errno fs ?q = None \<longrightarrow> read_pdf_as_base64 fs p = Inl (OSError 21 (str_path ?q))"
    using assms(5) by (simp add: r open_read_def)
  have some: "\<forall>n. open_errno fs ?q = Some n \<longrightarrow> read_pdf_as_base64 fs p = Inl (OSError n (str_path ?q))"
    using assms(6) by (simp add: r open_read_def os_error_def)
  have ex: "\<exists>n. n \<noteq> 2 \<and> read_pdf_as_base64 fs p = Inl (OSError n (str_path ?q))"
  proof (cases "open_errno fs ?q")
    case None
    with none have "read_pdf_as_base64 fs p = Inl (OSError 21 (str_path ?q))" by simp
    then show ?thesis by (intro exI [of _ 21]) simp
  next
    case (Some n)
    with some have "read_pdf_as_base64 fs p = Inl (OSError n (str_path ?q))" by simp
    moreover from Some assms(6) have "n \<noteq> 2" by simp
    ultimately show ?thesis by blast
  qed
  from ex have nf: "\<forall>m. read_pdf_as_base64 fs p \<noteq> Inl (FileNotFoundError m)"
    and nv: "\<forall>m. read_pdf_as_base64 fs p \<noteq> Inl (ValueError m)"
    by auto
  from v ex nf nv none some show ?thesis by (intro conjI)
qed

theorem C10_directory_accepted_witness:
  "node example_fs (Path ''/tmp/scans.pdf'') = Some Directory
   \<and> stat_errno example_fs (Path ''/tmp/scans.pdf'') = None
   \<and> name_ends_in_pdf (Path ''/tmp/scans.pdf'')
   \<and> 4 < length (name (Path ''/tmp/scans.pdf''))
   \<and> node example_fs (realpath example_fs (Path ''/tmp/scans.pdf'')) = Some Directory
   \<and> open_errno example_fs (realpath example_fs (Path ''/tmp/scans.pdf'')) = None
   \<and> validate_pdf_path example_fs ''/tmp/scans.pdf'' = Inr (PosixPath ''/'' [''tmp'', ''scans.pdf''])
   \<and> read_pdf_as_base64 example_fs ''/tmp/scans.pdf'' = Inl (OSError 21 ''/tmp/scans.pdf'')
   \<and> node example_fs (Path ''/tmp/sealed.pdf'') = Some Directory
   \<and> open_errno example_fs (realpath example_fs (Path ''/tmp/sealed.pdf'')) = Some 13
   \<and> validate_pdf_path example_fs ''/tmp/sealed.pdf'' = Inr (PosixPath ''/'' [''tmp'', ''sealed.pdf''])
   \<and> read_pdf_as_base64 example_fs ''/tmp/sealed.pdf'' = Inl (OSError 13 ''/tmp/sealed.pdf'')"
proof -
  let ?q = "PosixPath ''/'' [''tmp'', ''scans.pdf'']"
  let ?s = "PosixPath ''/'' [''tmp'', ''sealed.pdf'']"
  have P: "Path ''/tmp/scans.pdf'' = ?q" "Path ''/tmp/sealed.pdf'' = ?s"
    by (simp_all add: Path_examples)
  have r: "realpath example_fs ?q = ?q" "realpath example_fs ?s = ?s"
    by (simp_all add: example_fs_def)
  have a: "node example_fs (Path ''/tmp/scans.pdf'') = Some Directory"
    and sa: "stat_errno example_fs (Path ''/tmp/scans.pdf'') = None"
    and d: "node example_fs (realpath example_fs (Path ''/tmp/scans.pdf'')) = Some Directory"
    and o: "open_errno example_fs (realpath example_fs (Path ''/tmp/scans.pdf'')) = None"
    by (simp_all add: P r) (simp_all add: example_fs_def)
  have b: "name_ends_in_pdf (Path ''/tmp/scans.pdf'')" "name_ends_in_pdf (Path ''/tmp/sealed.pdf'')"
    by (simp_all add: P name_ends_examples)
  have c: "4 < length (name (Path ''/tmp/scans.pdf''))" "4 < length (name (Path ''/tmp/sealed.pdf''))"
    by (simp_all add: P name_examples)
  have o2: "open_errno example_fs (realpath example_fs (Path ''/tmp/scans.pdf'')) \<noteq> Some 2"
    using o by simp
  note t = C10_directory_accepted [OF a sa b(1) c(1) d o2]
  have v1: "validate_pdf_path example_fs ''/tmp/scans.pdf'' = Inr ?q"
    using t [THEN conjunct1] by (simp add: P r)
  have r1: "read_pdf_as_base64 example_fs ''/tmp/scans.pdf'' = Inl (OSError 21 ''/tmp/scans.pdf'')"
    using t [THEN conjunct2, THEN conjunct2, THEN conjunct2, THEN conjunct2, THEN conjunct1,
        rule_format, OF o]
    by (simp add: P r str_path_examples)
  have a': "node example_fs (Path ''/tmp/sealed.pdf'') = Some Directory"
    and sa': "stat_errno example_fs (Path ''/tmp/sealed.pdf'') = None"
    and d': "node example_fs (realpath example_fs (Path ''/tmp/sealed.pdf'')) = Some Directory"
    and o': "open_errno example_fs (realpath example_fs (Path ''/tmp/sealed.pdf'')) = Some 13"
    by (simp_all add: P r) (simp_all add: example_fs_def)
  have o2': "open_errno example_fs (realpath example_fs (Path ''/tmp/sealed.pdf'')) \<noteq> Some 2"
    using o' by simp
  note t' = C10_directory_accepted [OF a' sa' b(2) c(2) d' o2']
  have v2: "validate_pdf_path example_fs ''/tmp/sealed.pdf'' = Inr ?s"
    using t' [THEN conjunct1] by (simp add: P r)
  have r2: "read_pdf_as_base64 example_fs ''/tmp/sealed.pdf'' = Inl (OSError 13 ''/tmp/sealed.pdf'')"
    using t' [THEN conjunct2, THEN conjunct2, THEN conjunct2, THEN conjunct2, THEN conjunct2,
        rule_format, OF o']
    by (simp add: P r str_path_examples)
  show ?thesis
    using a sa b(1) c(1) d o v1 r1 a' o' v2 r2 by (intro conjI)
qed

text \<open>
  The claim as stated fails at two directories. \<^verbatim>\<open>/tmp/archive/.pdf\<close> exists and
  its name ends in \<^verbatim>\<open>.pdf\<close>, but \<^verbatim>\<open>pathlib\<close> gives the name no suffix, so the
  validation itself raises \<open>ValueError\<close>. \<^verbatim>\<open>/secret/scans.pdf\<close> exists, but the
  stat behind \<^verbatim>\<open>exists\<close> is refused and the validation raises that error.
\<close>

theorem C10_counterexample:
  "node example_fs (Path ''/tmp/archive/.pdf'') = Some Directory
   \<and> name_ends_in_pdf (Path ''/tmp/archive/.pdf'')
   \<and> validate_pdf_path example_fs ''/tmp/archive/.pdf''
       = Inl (ValueError ''File is not a PDF: /tmp/archive/.pdf'')
   \<and> read_pdf_as_base64 example_fs ''/tmp/archive/.pdf''
       = Inl (ValueError ''File is not a PDF: /tmp/archive/.pdf'')
   \<and> node example_fs (Path ''/secret/scans.pdf'') = Some Directory
   \<and> name_ends_in_pdf (Path ''/secret/scans.pdf'')
   \<and> validate_pdf_path example_fs ''/secret/scans.pdf'' = Inl (OSError 13 ''/secret/scans.pdf'')"
proof -
  have a: "node example_fs (Path ''/tmp/archive/.pdf'') = Some Directory"
    and sa: "stat_errno example_fs (Path ''/tmp/archive/.pdf'') = None"
    by (simp_all add: Path_examples example_fs_def)
  have b: "name_ends_in_pdf (Path ''/tmp/archive/.pdf'')"
    by (simp add: Path_examples name_ends_examples)
  have c: "validate_pdf_path example_fs ''/tmp/archive/.pdf''
      = Inl (ValueError ''File is not a PDF: /tmp/archive/.pdf'')"
    using a sa by (simp add: validate_by_exists exists_path_found Path_examples suffix_examples)
  have d: "read_pdf_as_base64 example_fs ''/tmp/archive/.pdf''
      = Inl (ValueError ''File is not a PDF: /tmp/archive/.pdf'')"
    by (simp add: read_pdf_as_base64_def c)
  have e: "node example_fs (Path ''/secret/scans.pdf'') = Some Directory"
    by (simp add: Path_examples example_fs_def)
  have f: "name_ends_in_pdf (Path ''/secret/scans.pdf'')"
    by (simp add: Path_examples name_ends_examples)
  have ex: "exists_path example_fs (PosixPath ''/'' [''secret'', ''scans.pdf''])
      = Inl (OSError 13 ''/secret/scans.pdf'')"
    by (simp add: exists_path_def os_stat_def ignore_error_def str_path_examples example_fs_def)
  have g: "validate_pdf_path example_fs ''/secret/scans.pdf'' = Inl (OSError 13 ''/secret/scans.pdf'')"
    by (simp add: validate_by_exists Path_examples ex)
  show ?thesis
    using a b c d e f g by (intro conjI)
qed


section \<open>The tool-call client\<close>

lemma call_tool_outcome:
  "fst (call_tool L c w tool b64) =
     and_then (server w (issued w)
        (POST (mcp_endpoint c) (headers c)
           (create_tool_call_request tool [(''fileContent'', JStr b64)] (IntId (request_id c + 1)))))
       (\<lambda>response.
          and_then (raise_for_status response) (\<lambda>_.
          and_then (response_json L response) (\<lambda>rpc_response.
          parse_rpc_response L rpc_response)))"
  by (simp add: call_tool_def next_request_id_def send_def)

lemma call_tool_parsed:
  assumes "server w (issued w)
        (POST (mcp_endpoint c) (headers c)
           (create_tool_call_request tool [(''fileContent'', JStr b64)] (IntId (request_id c + 1))))
      = Inr r"
    and "200 \<le> status_code r" and "status_code r \<le> 299"
    and "json_loads L (body r) = Some v"
  shows "fst (call_tool L c w tool b64) = parse_rpc_response L v"
  using assms by (simp add: call_tool_outcome raise_for_status_def response_json_def)

lemma call_tool_status:
  assumes "server w (issued w)
        (POST (mcp_endpoint c) (headers c)
           (create_tool_call_request tool [(''fileContent'', JStr b64)] (IntId (request_id c + 1))))
      = Inr r"
    and "\<not> (200 \<le> status_code r \<and> status_code r \<le> 299)"
  shows "fst (call_tool L c w tool b64) = Inl (HTTPError (HTTPStatusError (status_code r)))"
proof -
  have "raise_for_status r = Inl (HTTPError (HTTPStatusError (status_code r)))"
    using assms(2) by (auto simp: raise_for_status_def)
  then show ?thesis
    using assms(1) by (simp add: call_tool_outcome)
qed

lemma extract_text_outcome:
  "read_pdf_as_base64 fs p = Inr b64 \<Longrightarrow>
   fst (extract_text L fs c w p) =
     and_then (fst (call_tool L c w ''extract_text'' b64)) (\<lambda>r. py_get r ''text'' (JStr []))"
  by (simp add: extract_text_def split: prod.splits)

lemma extract_metadata_outcome:
  "read_pdf_as_base64 fs p = Inr b64 \<Longrightarrow>
   fst (extract_metadata L fs c w p) = fst (call_tool L c w ''extract_metadata'' b64)"
  by (simp add: extract_metadata_def)

lemma parse_no_content:
  assumes "map_of rpc ''error'' = None"
    and "map_of rpc ''result'' = None \<or>
      (\<exists>res. map_of rpc ''result'' = Some (JObj res) \<and>
         (map_of res ''content'' = None \<or> map_of res ''content'' = Some (JArr [])))"
  shows "parse_rpc_response L (JObj rpc) = Inr (JObj [])"
  using assms by (auto simp: parse_rpc_response_def)

lemma parse_first_item:
  assumes "map_of rpc ''error'' = None"
    and "map_of rpc ''result'' = Some (JObj res)"
    and "map_of res ''content'' = Some (JArr (JObj item # rest))"
  shows "parse_rpc_response L (JObj rpc) =
     (if map_of item ''type'' = Some (JStr ''text'')
      then and_then (py_getitem (JObj item) ''text'') (loads L)
      else Inr (JObj []))"
  using assms by (auto simp: parse_rpc_response_def split: option.splits)

lemma parse_error:
  assumes "map_of rpc ''error'' = Some (JObj err)"
  shows "parse_rpc_response L (JObj rpc) =
     Inl (ValueError (''MCP error [''
        @ py_str L (case map_of err ''code'' of None \<Rightarrow> JNull | Some v \<Rightarrow> v) @ '']: ''
        @ py_str L (case map_of err ''message'' of None \<Rightarrow> JNull | Some v \<Rightarrow> v)))"
  using assms by (simp add: parse_rpc_response_def)

lemma is_substring_append: "is_substring k (pre @ k @ suf)"
proof (induction pre)
  case Nil
  show ?case
  proof (cases "k @ suf")
    case Nil
    then show ?thesis by simp
  next
    case (Cons c cs)
    have "take (length k) (k @ suf) = k" by simp
    then show ?thesis using Cons by simp
  qed
next
  case (Cons a pre)
  then show ?case by simp
qed

lemma py_get_not_object: "\<not> is_object v \<Longrightarrow> py_get v k d = Inl AttributeError"
  by (cases v) simp_all

lemma loads_not_string: "\<not> is_string v \<Longrightarrow> loads L v = Inl TypeError"
  by (cases v) simp_all

lemma parse_result_not_object:
  assumes "map_of rpc ''error'' = None" and "map_of rpc ''result'' = Some v"
    and "\<not> is_object v"
  shows "parse_rpc_response L (JObj rpc) = Inl AttributeError"
  using assms by (simp add: parse_rpc_response_def py_get_not_object)

lemma parse_item_not_object:
  assumes "map_of rpc ''error'' = None" and "map_of rpc ''result'' = Some (JObj res)"
    and "map_of res ''content'' = Some (JArr (x # rest))" and "\<not> is_object x"
  shows "parse_rpc_response L (JObj rpc) = Inl AttributeError"
  using assms by (simp add: parse_rpc_response_def py_get_not_object)

lemma parse_error_not_object:
  assumes "map_of rpc ''error'' = Some v" and "\<not> is_object v"
  shows "parse_rpc_response L (JObj rpc) = Inl AttributeError"
  using assms by (simp add: parse_rpc_response_def py_get_not_object)


subsection \<open>The concrete environments\<close>

lemma example_client_fields:
  "base_url example_client = ''http://localhost:3000''"
  "mcp_endpoint example_client = ''http://localhost:3000/mcp''"
  "headers example_client =
     [(''Content-Type'', ''application/json''),
      (''Accept'', ''application/json, text/event-stream'')]"
  "request_id example_client = 0"
  by (simp_all add: example_client_def init_def rstrip_def example_library_def)

lemma mock_world_first:
  "server (mock_world (x # xs)) (issued (mock_world (x # xs))) req = x"
  by (simp add: mock_world_def)

lemma example_loads:
  "json_loads example_library sample_text = Some (JObj [(''text'', JStr ''Sample PDF text'')])"
  "json_loads example_library text_body =
     Some (JObj [(''jsonrpc'', JStr ''2.0''), (''id'', JInt 1),
                 (''result'', JObj [(''content'',
                    JArr [JObj [(''type'', JStr ''text''), (''text'', JStr sample_text)]])])])"
  "json_loads example_library empty_body =
     Some (JObj [(''jsonrpc'', JStr ''2.0''), (''id'', JInt 1),
                 (''result'', JObj [(''content'', JArr [])])])"
  "json_loads example_library error_body =
     Some (JObj [(''jsonrpc'', JStr ''2.0''), (''id'', JInt 1),
                 (''error'', JObj [(''code'', JInt (- 32600)),
                                   (''message'', JStr ''Invalid request'')])])"
  "json_loads example_library image_body =
     Some (JObj [(''jsonrpc'', JStr ''2.0''), (''id'', JInt 1),
                 (''result'', JObj [(''content'',
                    JArr [JObj [(''type'', JStr ''image''), (''data'', JStr ''AAAA'')]])])])"
  "json_loads example_library untexted_body =
     Some (JObj [(''jsonrpc'', JStr ''2.0''), (''id'', JInt 1),
                 (''result'', JObj [(''content'', JArr [JObj [(''type'', JStr ''text'')]])])])"
  by (simp_all add: example_library_def sample_text_def text_body_def empty_body_def
      error_body_def image_body_def untexted_body_def)

lemma example_read:
  "read_pdf_as_base64 example_fs ''/tmp/test.pdf'' = Inr ''ZmFrZSBwZGYgY29udGVudA==''"
proof -
  have o: "open_read example_fs (PosixPath ''/'' [''tmp'', ''test.pdf'']) =
      Inr [0x66, 0x61, 0x6B, 0x65, 0x20, 0x70, 0x64, 0x66, 0x20, 0x63, 0x6F, 0x6E, 0x74, 0x65, 0x6E, 0x74]"
    by (simp add: open_read_def example_fs_def)
  show ?thesis
    by (simp only: read_by_open [OF example_validate(1)] o and_then_simps example_b64)
qed

lemma example_loads_more:
  "json_loads example_library null_result_body =
     Some (JObj [(''jsonrpc'', JStr ''2.0''), (''id'', JInt 1), (''result'', JNull)])"
  "json_loads example_library plain_item_body =
     Some (JObj [(''jsonrpc'', JStr ''2.0''), (''id'', JInt 1),
                 (''result'', JObj [(''content'', JArr [JStr ''plain''])])])"
  "json_loads example_library number_text_body =
     Some (JObj [(''jsonrpc'', JStr ''2.0''), (''id'', JInt 1),
                 (''result'', JObj [(''content'',
                    JArr [JObj [(''type'', JStr ''text''), (''text'', JInt 42)]])])])"
  "json_loads example_library list_text_body =
     Some (JObj [(''jsonrpc'', JStr ''2.0''), (''id'', JInt 1),
                 (''result'', JObj [(''content'',
                    JArr [JObj [(''type'', JStr ''text''), (''text'', JStr ''[1]'')]])])])"
  "json_loads example_library ''[1]'' = Some (JArr [JInt 1])"
  "json_loads example_library null_error_body =
     Some (JObj [(''jsonrpc'', JStr ''2.0''), (''id'', JInt 1), (''error'', JNull)])"
  "json_loads example_library string_error_body =
     Some (JObj [(''jsonrpc'', JStr ''2.0''), (''id'', JInt 1), (''error'', JStr ''boom'')])"
  "json_loads example_library bad_text_body =
     Some (JObj [(''jsonrpc'', JStr ''2.0''), (''id'', JInt 1),
                 (''result'', JObj [(''content'',
                    JArr [JObj [(''type'', JStr ''text''), (''text'', JStr ''not json'')]])])])"
  "json_loads example_library ''not json'' = None"
  by (simp_all add: example_library_def sample_text_def text_body_def empty_body_def
      error_body_def image_body_def untexted_body_def null_result_body_def plain_item_body_def
      number_text_body_def list_text_body_def null_error_body_def string_error_body_def
      bad_text_body_def)

lemma example_call:
  assumes "json_loads example_library b = Some v"
  shows "fst (call_tool example_library example_client
            (mock_world [Inr \<lparr>status_code = 200, body = b\<rparr>]) tool x)
         = parse_rpc_response example_library v"
proof -
  let ?r = "\<lparr>status_code = 200, body = b\<rparr>"
  have "server (mock_world [Inr ?r]) (issued (mock_world [Inr ?r]))
      (POST (mcp_endpoint example_client) (headers example_client)
         (create_tool_call_request tool [(''fileContent'', JStr x)]
            (IntId (request_id example_client + 1)))) = Inr ?r"
    by (rule mock_world_first)
  then show ?thesis
    by (rule call_tool_parsed) (simp_all add: assms)
qed


subsection \<open>Results\<close>

lemma call_tool_unwrapping:
  assumes resp: "server w (issued w)
        (POST (mcp_endpoint c) (headers c)
           (create_tool_call_request tool [(''fileContent'', JStr b64)] (IntId (request_id c + 1))))
      = Inr r"
    and ok: "200 \<le> status_code r" "status_code r \<le> 299"
    and parsed: "json_loads L (body r) = Some (JObj rpc)"
    and no_error: "map_of rpc ''error'' = None"
  shows
    "(map_of rpc ''result'' = None \<or>
        (\<exists>res. map_of rpc ''result'' = Some (JObj res) \<and>
           (map_of res ''content'' = None \<or> map_of res ''content'' = Some (JArr [])))
      \<longrightarrow> fst (call_tool L c w tool b64) = Inr (JObj [])
          \<and> (read_pdf_as_base64 fs p = Inr b64 \<and> tool = ''extract_text''
               \<longrightarrow> fst (extract_text L fs c w p) = Inr (JStr []))
          \<and> (read_pdf_as_base64 fs p = Inr b64 \<and> tool = ''extract_metadata''
               \<longrightarrow> fst (extract_metadata L fs c w p) = Inr (JObj [])))
     \<and> (\<forall>res item rest t.
          map_of rpc ''result'' = Some (JObj res)
          \<and> map_of res ''content'' = Some (JArr (JObj item # rest))
          \<and> map_of item ''type'' = Some (JStr ''text'')
          \<and> map_of item ''text'' = Some (JStr t)
        \<longrightarrow> fst (call_tool L c w tool b64)
              = (case json_loads L t of None \<Rightarrow> Inl JSONDecodeError | Some v \<Rightarrow> Inr v)
            \<and> (\<forall>d. json_loads L t = Some (JObj d)
                     \<and> read_pdf_as_base64 fs p = Inr b64 \<and> tool = ''extract_text''
                 \<longrightarrow> fst (extract_text L fs c w p)
                       = Inr (case map_of d ''text'' of None \<Rightarrow> JStr [] | Some v \<Rightarrow> v)))
     \<and> (\<forall>res item rest.
          map_of rpc ''result'' = Some (JObj res)
          \<and> map_of res ''content'' = Some (JArr (JObj item # rest))
          \<and> map_of item ''type'' \<noteq> Some (JStr ''text'')
        \<longrightarrow> fst (call_tool L c w tool b64) = Inr (JObj []))"
proof -
  note ct = call_tool_parsed [OF resp ok parsed]
  have A: "fst (call_tool L c w tool b64) = Inr (JObj [])"
    if "map_of rpc ''result'' = None \<or>
        (\<exists>res. map_of rpc ''result'' = Some (JObj res) \<and>
           (map_of res ''content'' = None \<or> map_of res ''content'' = Some (JArr [])))"
    using parse_no_content [OF no_error that] by (simp add: ct)
  have B: "fst (call_tool L c w tool b64)
      = (case json_loads L t of None \<Rightarrow> Inl JSONDecodeError | Some v \<Rightarrow> Inr v)"
    if "map_of rpc ''result'' = Some (JObj res)"
      and "map_of res ''content'' = Some (JArr (JObj item # rest))"
      and "map_of item ''type'' = Some (JStr ''text'')"
      and "map_of item ''text'' = Some (JStr t)"
    for res item rest t
    using parse_first_item [OF no_error that(1) that(2), of L] that(3) that(4)
    by (simp add: ct)
  have C: "fst (call_tool L c w tool b64) = Inr (JObj [])"
    if "map_of rpc ''result'' = Some (JObj res)"
      and "map_of res ''content'' = Some (JArr (JObj item # rest))"
      and "map_of item ''type'' \<noteq> Some (JStr ''text'')"
    for res item rest
    using parse_first_item [OF no_error that(1) that(2), of L] that(3)
    by (simp add: ct)
  have T: "fst (extract_text L fs c w p) = and_then (fst (call_tool L c w tool b64))
        (\<lambda>r. py_get r ''text'' (JStr []))"
    if "read_pdf_as_base64 fs p = Inr b64" and "tool = ''extract_text''"
    using extract_text_outcome [OF that(1)] that(2) by simp
  have M: "fst (extract_metadata L fs c w p) = fst (call_tool L c w tool b64)"
    if "read_pdf_as_base64 fs p = Inr b64" and "tool = ''extract_metadata''"
    using extract_metadata_outcome [OF that(1)] that(2) by simp
  show ?thesis
  proof (intro conjI impI allI)
    assume h: "map_of rpc ''result'' = None \<or>
        (\<exists>res. map_of rpc ''result'' = Some (JObj res) \<and>
           (map_of res ''content'' = None \<or> map_of res ''content'' = Some (JArr [])))"
    show "fst (call_tool L c w tool b64) = Inr (JObj [])" by (rule A [OF h])
    show "fst (extract_text L fs c w p) = Inr (JStr [])"
      if "read_pdf_as_base64 fs p = Inr b64 \<and> tool = ''extract_text''"
      using T that A [OF h] by simp
    show "fst (extract_metadata L fs c w p) = Inr (JObj [])"
      if "read_pdf_as_base64 fs p = Inr b64 \<and> tool = ''extract_metadata''"
      using M that A [OF h] by simp
  next
    fix res item rest t
    assume h: "map_of rpc ''result'' = Some (JObj res)
          \<and> map_of res ''content'' = Some (JArr (JObj item # rest))
          \<and> map_of item ''type'' = Some (JStr ''text'')
          \<and> map_of item ''text'' = Some (JStr t)"
    then have b: "fst (call_tool L c w tool b64)
        = (case json_loads L t of None \<Rightarrow> Inl JSONDecodeError | Some v \<Rightarrow> Inr v)"
      using B by blast
    show "fst (call_tool L c w tool b64)
        = (case json_loads L t of None \<Rightarrow> Inl JSONDecodeError | Some v \<Rightarrow> Inr v)"
      by (rule b)
    show "fst (extract_text L fs c w p)
        = Inr (case map_of d ''text'' of None \<Rightarrow> JStr [] | Some v \<Rightarrow> v)"
      if "json_loads L t = Some (JObj d)
          \<and> read_pdf_as_base64 fs p = Inr b64 \<and> tool = ''extract_text''" for d
      using T that b by simp
  next
    fix res item rest
    assume "map_of rpc ''result'' = Some (JObj res)
          \<and> map_of res ''content'' = Some (JArr (JObj item # rest))
          \<and> map_of item ''type'' \<noteq> Some (JStr ''text'')"
    then show "fst (call_tool L c w tool b64) = Inr (JObj [])"
      using C by blast
  qed
qed





subsection \<open>Errors\<close>

lemma call_tool_error_cases:
  assumes resp: "server w (issued w)
        (POST (mcp_endpoint c) (headers c)
           (create_tool_call_request tool [(''fileContent'', JStr b64)] (IntId (request_id c + 1))))
      = Inr r"
  shows
    "(200 \<le> status_code r \<and> status_code r \<le> 299
        \<and> json_loads L (body r) = Some (JObj rpc) \<and> map_of rpc ''error'' = Some (JObj err)
      \<longrightarrow> fst (call_tool L c w tool b64)
            = Inl (ValueError (''MCP error [''
                @ py_str L (case map_of err ''code'' of None \<Rightarrow> JNull | Some v \<Rightarrow> v) @ '']: ''
                @ py_str L (case map_of err ''message'' of None \<Rightarrow> JNull | Some v \<Rightarrow> v)))
          \<and> (\<forall>e. fst (call_tool L c w tool b64) \<noteq> Inl (HTTPError e))
          \<and> (\<forall>n m. map_of err ''code'' = Some (JInt n) \<and> map_of err ''message'' = Some (JStr m)
                \<longrightarrow> fst (call_tool L c w tool b64)
                      = Inl (ValueError (''MCP error ['' @ str_int n @ '']: '' @ m))
                    \<and> is_substring m (''MCP error ['' @ str_int n @ '']: '' @ m)
                    \<and> is_substring (str_int n) (''MCP error ['' @ str_int n @ '']: '' @ m)))
     \<and> (\<not> (200 \<le> status_code r \<and> status_code r \<le> 299)
          \<longrightarrow> (\<forall>L'. fst (call_tool L' c w tool b64)
                       = Inl (HTTPError (HTTPStatusError (status_code r)))))"
proof (intro conjI impI allI)
  assume h: "200 \<le> status_code r \<and> status_code r \<le> 299
      \<and> json_loads L (body r) = Some (JObj rpc) \<and> map_of rpc ''error'' = Some (JObj err)"
  then have ct: "fst (call_tool L c w tool b64) = parse_rpc_response L (JObj rpc)"
    using call_tool_parsed [OF resp] by blast
  from h have pe: "parse_rpc_response L (JObj rpc) =
      Inl (ValueError (''MCP error [''
        @ py_str L (case map_of err ''code'' of None \<Rightarrow> JNull | Some v \<Rightarrow> v) @ '']: ''
        @ py_str L (case map_of err ''message'' of None \<Rightarrow> JNull | Some v \<Rightarrow> v)))"
    using parse_error by blast
  show g: "fst (call_tool L c w tool b64)
      = Inl (ValueError (''MCP error [''
          @ py_str L (case map_of err ''code'' of None \<Rightarrow> JNull | Some v \<Rightarrow> v) @ '']: ''
          @ py_str L (case map_of err ''message'' of None \<Rightarrow> JNull | Some v \<Rightarrow> v)))"
    by (simp only: ct pe)
  show "fst (call_tool L c w tool b64) \<noteq> Inl (HTTPError e)" for e
    unfolding g by simp
  show "fst (call_tool L c w tool b64) = Inl (ValueError (''MCP error ['' @ str_int n @ '']: '' @ m))"
    if "map_of err ''code'' = Some (JInt n) \<and> map_of err ''message'' = Some (JStr m)" for n m
    unfolding g using that by simp
  show "is_substring m (''MCP error ['' @ str_int n @ '']: '' @ m)" for n m
    using is_substring_append [of m "''MCP error ['' @ str_int n @ '']: ''" "[]"] by simp
  show "is_substring (str_int n) (''MCP error ['' @ str_int n @ '']: '' @ m)" for n m
    using is_substring_append [of "str_int n" "''MCP error [''" "'']: '' @ m"] by simp
next
  fix L'
  assume "\<not> (200 \<le> status_code r \<and> status_code r \<le> 299)"
  then show "fst (call_tool L' c w tool b64) = Inl (HTTPError (HTTPStatusError (status_code r)))"
    by (rule call_tool_status [OF resp])
qed

text \<open>
  Claim C2, as the code has it. Take a tool call whose POST is answered with a
  response. If the status is 2xx and the body decodes to an object with an
  \<open>error\<close> key holding an error object, \<open>call_tool\<close> fails with a
  \<open>ValueError\<close> whose message is \<^verbatim>\<open>MCP error [<code>]: <message>\<close>, whatever
  else the response holds (the result field is not looked at); this is no
  \<^verbatim>\<open>httpx.HTTPError\<close>; with an integer code and a string message, the message
  contains the digits of the code and the text of the message. If the status
  is not 2xx, \<open>call_tool\<close> fails with \<open>HTTPStatusError\<close> whatever the body is
  and however it would decode. If the status is 2xx and the value under the
  \<open>error\<close> key is no object (null, a string, a number, a list), the call
  raises \<open>AttributeError\<close>, which is no protocol error and carries nothing of
  what the server sent.
\<close>

theorem C2_error_responses:
  assumes resp: "server w (issued w)
        (POST (mcp_endpoint c) (headers c)
           (create_tool_call_request tool [(''fileContent'', JStr b64)] (IntId (request_id c + 1))))
      = Inr r"
  shows
    "(200 \<le> status_code r \<and> status_code r \<le> 299
        \<and> json_loads L (body r) = Some (JObj rpc) \<and> map_of rpc ''error'' = Some (JObj err)
      \<longrightarrow> fst (call_tool L c w tool b64)
            = Inl (ValueError (''MCP error [''
                @ py_str L (case map_of err ''code'' of None \<Rightarrow> JNull | Some v \<Rightarrow> v) @ '']: ''
                @ py_str L (case map_of err ''message'' of None \<Rightarrow> JNull | Some v \<Rightarrow> v)))
          \<and> (\<forall>e. fst (call_tool L c w tool b64) \<noteq> Inl (HTTPError e))
          \<and> (\<forall>n m. map_of err ''code'' = Some (JInt n) \<and> map_of err ''message'' = Some (JStr m)
                \<longrightarrow> fst (call_tool L c w tool b64)
                      = Inl (ValueError (''MCP error ['' @ str_int n @ '']: '' @ m))
                    \<and> is_substring m (''MCP error ['' @ str_int n @ '']: '' @ m)
                    \<and> is_substring (str_int n) (''MCP error ['' @ str_int n @ '']: '' @ m)))
     \<and> (\<not> (200 \<le> status_code r \<and> status_code r \<le> 299)
          \<longrightarrow> (\<forall>L'. fst (call_tool L' c w tool b64)
                       = Inl (HTTPError (HTTPStatusError (status_code r)))))
     \<and> (\<forall>v. 200 \<le> status_code r \<and> status_code r \<le> 299
            \<and> json_loads L (body r) = Some (JObj rpc)
            \<and> map_of rpc ''error'' = Some v \<and> \<not> is_object v
          \<longrightarrow> fst (call_tool L c w tool b64) = Inl AttributeError)"
proof -
  note old = call_tool_error_cases [OF resp, where L = L and rpc = rpc and err = err]
  have N: "\<forall>v. 200 \<le> status_code r \<and> status_code r \<le> 299
          \<and> json_loads L (body r) = Some (JObj rpc)
          \<and> map_of rpc ''error'' = Some v \<and> \<not> is_object v
        \<longrightarrow> fst (call_tool L c w tool b64) = Inl AttributeError"
  proof (intro allI impI)
    fix v
    assume h: "200 \<le> status_code r \<and> status_code r \<le> 299
        \<and> json_loads L (body r) = Some (JObj rpc)
        \<and> map_of rpc ''error'' = Some v \<and> \<not> is_object v"
    then have "fst (call_tool L c w tool b64) = parse_rpc_response L (JObj rpc)"
      using call_tool_parsed [OF resp] by blast
    moreover from h have "parse_rpc_response L (JObj rpc) = Inl AttributeError"
      using parse_error_not_object by blast
    ultimately show "fst (call_tool L c w tool b64) = Inl AttributeError"
      by simp
  qed
  from old [THEN conjunct1] old [THEN conjunct2] N
  show ?thesis by (intro conjI)
qed

lemma str_int_example: "str_int (- 32600) = ''-32600''"
  by (simp add: str_int_def str_nat.simps)

theorem C2_error_responses_witness:
  "server (mock_world [Inr \<lparr>status_code = 200, body = error_body\<rparr>])
       (issued (mock_world [Inr \<lparr>status_code = 200, body = error_body\<rparr>]))
       (POST (mcp_endpoint example_client) (headers example_client)
          (create_tool_call_request ''extract_text''
             [(''fileContent'', JStr ''ZmFrZSBwZGYgY29udGVudA=='')]
             (IntId (request_id example_client + 1))))
     = Inr \<lparr>status_code = 200, body = error_body\<rparr>
   \<and> json_loads example_library error_body =
       Some (JObj [(''jsonrpc'', JStr ''2.0''), (''id'', JInt 1),
                   (''error'', JObj [(''code'', JInt (- 32600)),
                                     (''message'', JStr ''Invalid request'')])])
   \<and> fst (call_tool example_library example_client
            (mock_world [Inr \<lparr>status_code = 200, body = error_body\<rparr>])
            ''extract_text'' ''ZmFrZSBwZGYgY29udGVudA=='')
       = Inl (ValueError ''MCP error [-32600]: Invalid request'')
   \<and> is_substring ''Invalid request'' ''MCP error [-32600]: Invalid request''
   \<and> is_substring ''-32600'' ''MCP error [-32600]: Invalid request''
   \<and> fst (call_tool example_library example_client
            (mock_world [Inr \<lparr>status_code = 500, body = error_body\<rparr>])
            ''extract_text'' ''ZmFrZSBwZGYgY29udGVudA=='')
       = Inl (HTTPError (HTTPStatusError 500))"
proof -
  let ?b = "''ZmFrZSBwZGYgY29udGVudA==''"
  let ?err = "[(''code'', JInt (- 32600)), (''message'', JStr ''Invalid request'')]"
  let ?rpc = "[(''jsonrpc'', JStr ''2.0''), (''id'', JInt 1), (''error'', JObj ?err)]"
  let ?w = "mock_world [Inr \<lparr>status_code = 200, body = error_body\<rparr>]"
  let ?w5 = "mock_world [Inr \<lparr>status_code = 500, body = error_body\<rparr>]"
  have resp: "server ?w (issued ?w)
      (POST (mcp_endpoint example_client) (headers example_client)
         (create_tool_call_request ''extract_text'' [(''fileContent'', JStr ?b)]
            (IntId (request_id example_client + 1))))
      = Inr \<lparr>status_code = 200, body = error_body\<rparr>"
    by (rule mock_world_first)
  have pre: "200 \<le> status_code \<lparr>status_code = 200, body = error_body\<rparr>
      \<and> status_code \<lparr>status_code = 200, body = error_body\<rparr> \<le> 299
      \<and> json_loads example_library (body \<lparr>status_code = 200, body = error_body\<rparr>)
          = Some (JObj ?rpc)
      \<and> map_of ?rpc ''error'' = Some (JObj ?err)"
    by (simp add: example_loads)
  note t = C2_error_responses [OF resp, of example_library ?rpc ?err,
      THEN conjunct1, rule_format, OF pre]
  have pre2: "map_of ?err ''code'' = Some (JInt (- 32600))
      \<and> map_of ?err ''message'' = Some (JStr ''Invalid request'')"
    by simp
  note u = t [THEN conjunct2, THEN conjunct2, rule_format, OF pre2, unfolded str_int_example]
  have call: "fst (call_tool example_library example_client ?w ''extract_text'' ?b)
      = Inl (ValueError ''MCP error [-32600]: Invalid request'')"
    using u [THEN conjunct1] by simp
  have s1: "is_substring ''Invalid request'' ''MCP error [-32600]: Invalid request''"
    using u [THEN conjunct2, THEN conjunct1] by simp
  have s2: "is_substring ''-32600'' ''MCP error [-32600]: Invalid request''"
    using u [THEN conjunct2, THEN conjunct2] by simp
  have resp5: "server ?w5 (issued ?w5)
      (POST (mcp_endpoint example_client) (headers example_client)
         (create_tool_call_request ''extract_text'' [(''fileContent'', JStr ?b)]
            (IntId (request_id example_client + 1))))
      = Inr \<lparr>status_code = 500, body = error_body\<rparr>"
    by (rule mock_world_first)
  have pre5: "\<not> (200 \<le> status_code \<lparr>status_code = 500, body = error_body\<rparr>
      \<and> status_code \<lparr>status_code = 500, body = error_body\<rparr> \<le> 299)"
    by simp
  have call5: "fst (call_tool example_library example_client ?w5 ''extract_text'' ?b)
      = Inl (HTTPError (HTTPStatusError 500))"
    using C2_error_responses [OF resp5, of example_library ?rpc ?err,
        THEN conjunct2, THEN conjunct1, rule_format, OF pre5, of example_library]
    by simp
  show ?thesis
    using resp example_loads(4) call s1 s2 call5
    by (intro conjI)
qed

text \<open>
  The claim as first worded fails when the value under the \<open>error\<close> key is no
  object: for \<^verbatim>\<open>{"jsonrpc":"2.0","id":1,"error":null}\<close> and for
  \<^verbatim>\<open>{"jsonrpc":"2.0","id":1,"error":"boom"}\<close>, answered with status 200, the
  call raises \<open>AttributeError\<close>, not the protocol error.
\<close>

theorem C2_counterexample:
  "json_loads example_library null_error_body =
       Some (JObj [(''jsonrpc'', JStr ''2.0''), (''id'', JInt 1), (''error'', JNull)])
   \<and> fst (call_tool example_library example_client
            (mock_world [Inr \<lparr>status_code = 200, body = null_error_body\<rparr>])
            ''extract_text'' ''ZmFrZSBwZGYgY29udGVudA=='')
       = Inl AttributeError
   \<and> json_loads example_library string_error_body =
       Some (JObj [(''jsonrpc'', JStr ''2.0''), (''id'', JInt 1), (''error'', JStr ''boom'')])
   \<and> fst (call_tool example_library example_client
            (mock_world [Inr \<lparr>status_code = 200, body = string_error_body\<rparr>])
            ''extract_text'' ''ZmFrZSBwZGYgY29udGVudA=='')
       = Inl AttributeError"
proof -
  let ?b = "''ZmFrZSBwZGYgY29udGVudA==''"
  have c1: "fst (call_tool example_library example_client
        (mock_world [Inr \<lparr>status_code = 200, body = null_error_body\<rparr>]) ''extract_text'' ?b)
      = Inl AttributeError"
    by (simp add: example_call [OF example_loads_more(6)] parse_rpc_response_def)
  have c2: "fst (call_tool example_library example_client
        (mock_world [Inr \<lparr>status_code = 200, body = string_error_body\<rparr>]) ''extract_text'' ?b)
      = Inl AttributeError"
    by (simp add: example_call [OF example_loads_more(7)] parse_rpc_response_def)
  show ?thesis
    using example_loads_more(6) c1 example_loads_more(7) c2
    by (intro conjI)
qed

text \<open>
  Claim C9. When the first content item of a response without error has type
  \<open>text\<close> and no text field, \<open>call_tool\<close> raises \<open>KeyError\<close> for the key
  \<open>text\<close>: the field is read by indexing. The outcome is neither a
  \<open>JSONDecodeError\<close> nor the empty mapping.
\<close>

theorem C9_missing_text_field:
  assumes "server w (issued w)
        (POST (mcp_endpoint c) (headers c)
           (create_tool_call_request tool [(''fileContent'', JStr b64)] (IntId (request_id c + 1))))
      = Inr r"
    and "200 \<le> status_code r" and "status_code r \<le> 299"
    and "json_loads L (body r) = Some (JObj rpc)"
    and "map_of rpc ''error'' = None"
    and "map_of rpc ''result'' = Some (JObj res)"
    and "map_of res ''content'' = Some (JArr (JObj item # rest))"
    and "map_of item ''type'' = Some (JStr ''text'')"
    and "map_of item ''text'' = None"
  shows "fst (call_tool L c w tool b64) = Inl (KeyError ''text'')
    \<and> fst (call_tool L c w tool b64) \<noteq> Inl JSONDecodeError
    \<and> fst (call_tool L c w tool b64) \<noteq> Inr (JObj [])"
proof -
  have "fst (call_tool L c w tool b64) = Inl (KeyError ''text'')"
    using call_tool_parsed [OF assms(1-4)] parse_first_item [OF assms(5-7), of L] assms(8,9)
    by simp
  then show ?thesis by simp
qed

theorem C9_missing_text_field_witness:
  "server (mock_world [Inr \<lparr>status_code = 200, body = untexted_body\<rparr>])
       (issued (mock_world [Inr \<lparr>status_code = 200, body = untexted_body\<rparr>]))
       (POST (mcp_endpoint example_client) (headers example_client)
          (create_tool_call_request ''extract_text''
             [(''fileContent'', JStr ''ZmFrZSBwZGYgY29udGVudA=='')]
             (IntId (request_id example_client + 1))))
     = Inr \<lparr>status_code = 200, body = untexted_body\<rparr>
   \<and> json_loads example_library untexted_body =
       Some (JObj [(''jsonrpc'', JStr ''2.0''), (''id'', JInt 1),
                   (''result'', JObj [(''content'', JArr [JObj [(''type'', JStr ''text'')]])])])
   \<and> fst (call_tool example_library example_client
            (mock_world [Inr \<lparr>status_code = 200, body = untexted_body\<rparr>])
            ''extract_text'' ''ZmFrZSBwZGYgY29udGVudA=='')
       = Inl (KeyError ''text'')"
proof -
  let ?b = "''ZmFrZSBwZGYgY29udGVudA==''"
  let ?item = "[(''type'', JStr ''text'')]"
  let ?res = "[(''content'', JArr [JObj ?item])]"
  let ?rpc = "[(''jsonrpc'', JStr ''2.0''), (''id'', JInt 1), (''result'', JObj ?res)]"
  let ?r = "\<lparr>status_code = 200, body = untexted_body\<rparr>"
  let ?w = "mock_world [Inr ?r]"
  have resp: "server ?w (issued ?w)
      (POST (mcp_endpoint example_client) (headers example_client)
         (create_tool_call_request ''extract_text'' [(''fileContent'', JStr ?b)]
            (IntId (request_id example_client + 1))))
      = Inr ?r"
    by (rule mock_world_first)
  have ok: "200 \<le> status_code ?r" "status_code ?r \<le> 299" by simp_all
  have parsed: "json_loads example_library (body ?r) = Some (JObj ?rpc)"
    by (simp add: example_loads)
  have a: "map_of ?rpc ''error'' = None" by simp
  have b: "map_of ?rpc ''result'' = Some (JObj ?res)" by simp
  have c: "map_of ?res ''content'' = Some (JArr (JObj ?item # []))" by simp
  have d: "map_of ?item ''type'' = Some (JStr ''text'')" by simp
  have e: "map_of ?item ''text'' = None" by simp
  note t = C9_missing_text_field [OF resp ok parsed a b c d e]
  show ?thesis
    using resp example_loads(6) t [THEN conjunct1]
    by (intro conjI)
qed


subsection \<open>The health check\<close>

text \<open>
  Claim C6. When the GET to the health endpoint is answered with a response,
  \<open>health_check\<close> returns whether its status is 200, so it returns false on
  every other status (500 among them) and raises nothing; when the GET raises a
  \<^verbatim>\<open>httpx.HTTPError\<close> (a refused connection, a time-out, a failed name lookup),
  it returns false. A tool call answered with status 500 raises
  \<open>HTTPStatusError\<close> instead.
\<close>

theorem C6_health_check:
  "(\<forall>r. server w (issued w) (GET (urljoin L (base_url c @ ''/'') ''health'') (headers c)) = Inr r
        \<longrightarrow> fst (health_check L c w) = Inr (status_code r = 200))
   \<and> (\<forall>e. server w (issued w) (GET (urljoin L (base_url c @ ''/'') ''health'') (headers c))
            = Inl (HTTPError e)
        \<longrightarrow> fst (health_check L c w) = Inr False)
   \<and> (\<forall>r. server w (issued w)
            (POST (mcp_endpoint c) (headers c)
               (create_tool_call_request tool [(''fileContent'', JStr b64)]
                  (IntId (request_id c + 1)))) = Inr r
          \<and> status_code r = 500
        \<longrightarrow> fst (call_tool L c w tool b64) = Inl (HTTPError (HTTPStatusError 500)))"
proof (intro conjI allI impI)
  fix r
  assume "server w (issued w) (GET (urljoin L (base_url c @ ''/'') ''health'') (headers c)) = Inr r"
  then show "fst (health_check L c w) = Inr (status_code r = 200)"
    by (simp add: health_check_def send_def)
next
  fix e
  assume "server w (issued w) (GET (urljoin L (base_url c @ ''/'') ''health'') (headers c))
      = Inl (HTTPError e)"
  then show "fst (health_check L c w) = Inr False"
    by (simp add: health_check_def send_def)
next
  fix r
  assume h: "server w (issued w)
      (POST (mcp_endpoint c) (headers c)
         (create_tool_call_request tool [(''fileContent'', JStr b64)]
            (IntId (request_id c + 1)))) = Inr r
      \<and> status_code r = 500"
  then have "\<not> (200 \<le> status_code r \<and> status_code r \<le> 299)" by simp
  with h show "fst (call_tool L c w tool b64) = Inl (HTTPError (HTTPStatusError 500))"
    using call_tool_status [of w c tool b64 r L] by simp
qed

theorem C6_health_check_witness:
  "fst (health_check example_library example_client
          (mock_world [Inr \<lparr>status_code = 200, body = []\<rparr>])) = Inr True
   \<and> fst (health_check example_library example_client
          (mock_world [Inr \<lparr>status_code = 500, body = []\<rparr>])) = Inr False
   \<and> fst (health_check example_library example_client
          (mock_world [Inr \<lparr>status_code = 204, body = []\<rparr>])) = Inr False
   \<and> fst (health_check example_library example_client
          (mock_world [Inl (HTTPError ConnectError)])) = Inr False
   \<and> fst (health_check example_library example_client
          (mock_world [Inl (HTTPError ConnectTimeout)])) = Inr False
   \<and> fst (call_tool example_library example_client
          (mock_world [Inr \<lparr>status_code = 500, body = []\<rparr>])
          ''extract_text'' ''ZmFrZSBwZGYgY29udGVudA=='')
       = Inl (HTTPError (HTTPStatusError 500))"
proof -
  let ?L = example_library
  let ?c = example_client
  let ?b = "''ZmFrZSBwZGYgY29udGVudA==''"
  have g: "server (mock_world [x]) (issued (mock_world [x]))
      (GET (urljoin ?L (base_url ?c @ ''/'') ''health'') (headers ?c)) = x" for x
    by (rule mock_world_first)
  have p: "server (mock_world [x]) (issued (mock_world [x]))
      (POST (mcp_endpoint ?c) (headers ?c)
         (create_tool_call_request ''extract_text'' [(''fileContent'', JStr ?b)]
            (IntId (request_id ?c + 1)))) = x" for x
    by (rule mock_world_first)
  have a: "fst (health_check ?L ?c (mock_world [Inr \<lparr>status_code = 200, body = []\<rparr>])) = Inr True"
    using C6_health_check [of "mock_world [Inr \<lparr>status_code = 200, body = []\<rparr>]" ?L ?c,
        THEN conjunct1, rule_format, OF g]
    by simp
  have b: "fst (health_check ?L ?c (mock_world [Inr \<lparr>status_code = 500, body = []\<rparr>])) = Inr False"
    using C6_health_check [of "mock_world [Inr \<lparr>status_code = 500, body = []\<rparr>]" ?L ?c,
        THEN conjunct1, rule_format, OF g]
    by simp
  have c: "fst (health_check ?L ?c (mock_world [Inr \<lparr>status_code = 204, body = []\<rparr>])) = Inr False"
    using C6_health_check [of "mock_world [Inr \<lparr>status_code = 204, body = []\<rparr>]" ?L ?c,
        THEN conjunct1, rule_format, OF g]
    by simp
  have d: "fst (health_check ?L ?c (mock_world [Inl (HTTPError ConnectError)])) = Inr False"
    using C6_health_check [of "mock_world [Inl (HTTPError ConnectError)]" ?L ?c,
        THEN conjunct2, THEN conjunct1, rule_format, OF g] .
  have e: "fst (health_check ?L ?c (mock_world [Inl (HTTPError ConnectTimeout)])) = Inr False"
    using C6_health_check [of "mock_world [Inl (HTTPError ConnectTimeout)]" ?L ?c,
        THEN conjunct2, THEN conjunct1, rule_format, OF g] .
  have pre: "server (mock_world [Inr \<lparr>status_code = 500, body = []\<rparr>])
        (issued (mock_world [Inr \<lparr>status_code = 500, body = []\<rparr>]))
        (POST (mcp_endpoint ?c) (headers ?c)
           (create_tool_call_request ''extract_text'' [(''fileContent'', JStr ?b)]
              (IntId (request_id ?c + 1)))) = Inr \<lparr>status_code = 500, body = []\<rparr>
      \<and> status_code \<lparr>status_code = 500, body = []\<rparr> = 500"
    using p by simp
  have f: "fst (call_tool ?L ?c (mock_world [Inr \<lparr>status_code = 500, body = []\<rparr>])
      ''extract_text'' ?b) = Inl (HTTPError (HTTPStatusError 500))"
    using C6_health_check [of "mock_world [Inr \<lparr>status_code = 500, body = []\<rparr>]" ?L ?c,
        THEN conjunct2, THEN conjunct2, rule_format, OF pre] .
  show ?thesis
    using a b c d e f by (intro conjI)
qed


subsection \<open>Request ids\<close>

lemma request_ids_append: "request_ids (xs @ ys) = request_ids xs @ request_ids ys"
  by (induction xs rule: request_ids.induct) (simp_all split: option.splits)

lemma request_ids_tool_call:
  "request_ids [POST url hs (create_tool_call_request tool args (IntId i))] = [JInt i]"
  by (simp add: create_tool_call_request_def create_request_def)

lemma call_tool_effect:
  assumes "call_tool L c w tool b64 = (res, c1, w1)"
  shows "request_id c1 = request_id c + 1"
    and "request_ids (issued w1) = request_ids (issued w) @ [JInt (request_id c + 1)]"
proof -
  from assms have c1: "c1 = c\<lparr>request_id := request_id c + 1\<rparr>"
    and w1: "issued w1 = issued w @
      [POST (mcp_endpoint c) (headers c)
         (create_tool_call_request tool [(''fileContent'', JStr b64)] (IntId (request_id c + 1)))]"
    by (auto simp: call_tool_def next_request_id_def send_def)
  show "request_id c1 = request_id c + 1" by (simp add: c1)
  show "request_ids (issued w1) = request_ids (issued w) @ [JInt (request_id c + 1)]"
    by (simp only: w1 request_ids_append request_ids_tool_call)
qed

lemma ids_from_shift:
  "map (\<lambda>i. JInt (k + 1 + int i)) [0..<Suc n]
   = JInt (k + 1) # map (\<lambda>i. JInt (k + 1 + 1 + int i)) [0..<n]"
proof -
  have "[0..<Suc n] = 0 # map Suc [0..<n]"
    by (simp add: upt_conv_Cons map_Suc_upt del: upt_Suc)
  then have "map (\<lambda>i. JInt (k + 1 + int i)) [0..<Suc n]
      = JInt (k + 1) # map ((\<lambda>i. JInt (k + 1 + int i)) \<circ> Suc) [0..<n]"
    by simp
  also have "(\<lambda>i. JInt (k + 1 + int i)) \<circ> Suc = (\<lambda>i. JInt (k + 1 + 1 + int i))"
    by (rule ext) simp
  finally show ?thesis .
qed

lemma call_tools_ids:
  "request_ids (issued (snd (call_tools L c w calls)))
     = request_ids (issued w) @ map (\<lambda>i. JInt (request_id c + 1 + int i)) [0..<length calls]
   \<and> request_id (fst (call_tools L c w calls)) = request_id c + int (length calls)"
proof (induction calls arbitrary: c w)
  case Nil
  show ?case by simp
next
  case (Cons call calls)
  obtain tool b64 where call: "call = (tool, b64)" by (cases call)
  obtain res c1 w1 where step: "call_tool L c w tool b64 = (res, c1, w1)"
    by (cases "call_tool L c w tool b64") auto
  note eff = call_tool_effect [OF step]
  have unfold: "call_tools L c w (call # calls) = call_tools L c1 w1 calls"
    by (simp add: call step)
  have len: "[0..<length (call # calls)] = [0..<Suc (length calls)]" by simp
  show ?case
    unfolding unfold len ids_from_shift
    using Cons.IH [of c1 w1] by (simp add: eff)
qed

text \<open>
  Claim C8. A new client starts with its counter at 0, so the tool calls made
  through it, one after the other and whatever each returns, carry the ids
  1, 2, 3, ... in this order, a strictly increasing sequence; after \<open>n\<close> calls
  the counter is \<open>n\<close>. The counter belongs to the client: a second new client,
  used after the first, numbers its calls from 1 again.
\<close>

theorem C8_request_ids:
  "request_id (init L url key) = 0
   \<and> request_ids (issued (snd (call_tools L (init L url key) w calls)))
       = request_ids (issued w) @ map (\<lambda>i. JInt (int i + 1)) [0..<length calls]
   \<and> sorted_wrt (<) (map (\<lambda>i. int i + 1) [0..<length calls])
   \<and> request_id (fst (call_tools L (init L url key) w calls)) = int (length calls)
   \<and> request_ids (issued (snd (call_tools L (init L url' key')
         (snd (call_tools L (init L url key) w calls)) calls')))
       = request_ids (issued w) @ map (\<lambda>i. JInt (int i + 1)) [0..<length calls]
           @ map (\<lambda>i. JInt (int i + 1)) [0..<length calls']"
proof -
  have z: "request_id (init L u k) = 0" for u k
    by (simp add: init_def)
  have ids: "request_ids (issued (snd (call_tools L (init L u k) v cs)))
      = request_ids (issued v) @ map (\<lambda>i. JInt (int i + 1)) [0..<length cs]" for u k v cs
  proof -
    have "(\<lambda>i. JInt (request_id (init L u k) + 1 + int i)) = (\<lambda>i. JInt (int i + 1))"
      by (rule ext) (simp add: z)
    then show ?thesis
      using call_tools_ids [of L "init L u k" v cs, THEN conjunct1] by simp
  qed
  have "sorted_wrt (\<lambda>x y. int x + 1 < int y + 1) [0..<length calls]"
    by (rule sorted_wrt_mono_rel [OF _ sorted_wrt_upt]) simp
  then have s: "sorted_wrt (<) (map (\<lambda>i. int i + 1) [0..<length calls])"
    by (simp only: sorted_wrt_map)
  have n: "request_id (fst (call_tools L (init L url key) w calls)) = int (length calls)"
    using call_tools_ids [of L "init L url key" w calls, THEN conjunct2] by (simp add: z)
  have two: "request_ids (issued (snd (call_tools L (init L url' key')
         (snd (call_tools L (init L url key) w calls)) calls')))
       = request_ids (issued w) @ map (\<lambda>i. JInt (int i + 1)) [0..<length calls]
           @ map (\<lambda>i. JInt (int i + 1)) [0..<length calls']"
    by (simp only: ids append_assoc)
  from z ids s n two show ?thesis by (intro conjI)
qed

theorem C8_request_ids_witness:
  "request_ids (issued (snd (call_tools example_library
       (init example_library ''http://localhost:3000/'' None)
       (mock_world [])
       [(''extract_text'', ''QQ==''), (''extract_metadata'', ''QQ==''), (''extract_text'', ''Qg=='')])))
     = [JInt 1, JInt 2, JInt 3]"
proof -
  have u: "map (\<lambda>i. JInt (int i + 1)) [0..<length
      [(''extract_text'', ''QQ==''), (''extract_metadata'', ''QQ==''), (''extract_text'', ''Qg=='')]]
      = [JInt 1, JInt 2, JInt 3]"
    by (simp add: upt_rec)
  have e: "request_ids (issued (mock_world [])) = []"
    by (simp add: mock_world_def)
  show ?thesis
    using C8_request_ids [of example_library "''http://localhost:3000/''" None "mock_world []"
        "[(''extract_text'', ''QQ==''), (''extract_metadata'', ''QQ==''), (''extract_text'', ''Qg=='')]",
        THEN conjunct2, THEN conjunct1]
    by (simp only: u e append_Nil)
qed

end
